theory Spec2Isabelle
  imports Complex_Main
begin

section \<open>Shared helpers of the job runner\<close>

text \<open>
  Conventions of the embedding.
  \<^item> Instants (\<open>Date\<close> values, ISO timestamp strings of the feed) are integers: milliseconds
    since the epoch. Every function that reads the clock takes the instant \<open>now\<close> as an
    argument; a cycle reads the clock once.
  \<^item> Decimal strings that the code turns into \<open>BigInt\<close> (transfer values, fees, gas) are
    integers.
  \<^item> A thrown exception is the \<open>Inl\<close> branch of a sum; the value is the \<open>Inr\<close> branch.
  \<^item> A collection of documents is a list in insertion order; \<open>save\<close> appends.
\<close>

datatype error =
    InvalidAddressFormat
  | UnsupportedNetwork
  | CouldNotFetchTokenInfo
  | ValidationError
  | InvalidWalletAddress
  | WalletNotFound
  | UpstreamError
  | UnknownActionType
  | BrokerUnreachable

text \<open>\<open>String.prototype.toLowerCase\<close> on ASCII text (addresses and network names).\<close>

definition lower_char :: "char \<Rightarrow> char" where
  "lower_char c =
     (let n = (of_char c :: nat)
      in if 65 \<le> n \<and> n \<le> 90 then char_of (n + 32) else c)"

definition toLowerCase :: "string \<Rightarrow> string" where
  "toLowerCase s = map lower_char s"

definition isHexDigit :: "char \<Rightarrow> bool" where
  "isHexDigit c =
     (let n = (of_char c :: nat)
      in (48 \<le> n \<and> n \<le> 57) \<or> (97 \<le> n \<and> n \<le> 102) \<or> (65 \<le> n \<and> n \<le> 70))"

text \<open>\<^verbatim>\<open>/^0x[a-fA-F0-9]{40}$/.test(address)\<close>\<close>

definition isValidEthereumAddress :: "string \<Rightarrow> bool" where
  "isValidEthereumAddress a =
     (case a of
        c0 # c1 # rest \<Rightarrow>
          c0 = CHR ''0'' \<and> c1 = CHR ''x'' \<and> length rest = 40 \<and> list_all isHexDigit rest
      | _ \<Rightarrow> False)"

text \<open>\<open>config/networks.ts\<close>: the keys of \<open>NETWORKS\<close>, and the two lookups.\<close>

definition NETWORKS :: "string list" where
  "NETWORKS = [''testnet'', ''devnet'', ''mainnet'']"

definition DEFAULT_NETWORK :: string where
  "DEFAULT_NETWORK = ''testnet''"

definition getNetworkConfig :: "string \<Rightarrow> error + string" where
  "getNetworkConfig network =
     (if toLowerCase network \<in> set NETWORKS then Inr (toLowerCase network)
      else Inl UnsupportedNetwork)"

definition isValidNetwork :: "string \<Rightarrow> bool" where
  "isValidNetwork network = (toLowerCase network \<in> set NETWORKS)"

text \<open>The \<open>enum: ["testnet", "devnet", "mainnet"]\<close> validator that every schema puts on
  its \<open>network\<close> path: an exact match, with no lower-casing.\<close>

definition networkEnum :: "string \<Rightarrow> bool" where
  "networkEnum network = (network \<in> set [''testnet'', ''devnet'', ''mainnet''])"

text \<open>One HTTP GET of the upstream explorer: the request throws (timeout, non-2xx), or it
  delivers a body whose \<open>items\<close> and \<open>transfers\<close> members are arrays or absent.\<close>

datatype 'a response = RequestFailed | Body "'a list option" "'a list option"

text \<open>A JavaScript \<open>Set\<close> of strings keeps insertion order; \<open>Array.from\<close> reads it back.\<close>

definition set_add :: "string \<Rightarrow> string list \<Rightarrow> string list" where
  "set_add x xs = (if x \<in> set xs then xs else xs @ [x])"

definition new_Set :: "string list \<Rightarrow> string list" where
  "new_Set xs = foldl (\<lambda>acc x. set_add x acc) [] xs"

section \<open>Numbers of the JavaScript runtime\<close>

text \<open>
  A finite \<open>Number\<close> is the rational that it denotes. \<open>toDouble\<close> rounds a rational to the
  nearest number with a significand of 53 bits, a tie going to the even significand; this is
  what \<open>parseFloat\<close> does to a decimal string and what each arithmetic operation does to its
  exact result. The exponent is not bounded: a magnitude beyond the largest double stands
  for \<open>Infinity\<close>. The analyzers compare such numbers with \<open>10^18\<close>, \<open>10^20\<close>, \<open>10^21\<close>,
  \<open>200000\<close>, \<open>20\<close> and \<open>0\<close> only, and these comparisons do not tell the two readings apart.
\<close>

text \<open>The number of binary digits of a positive integer.\<close>

function bitlen :: "int \<Rightarrow> int" where
  "bitlen n = (if n \<le> 0 then 0 else 1 + bitlen (n div 2))"
  by pat_completeness auto
termination
  by (relation "measure nat") auto

declare bitlen.simps [simp del]

text \<open>For \<open>x > 0\<close>, the exponent \<open>k\<close> with \<open>2^k \<le> x < 2^(k+1)\<close>.\<close>

definition ilog2 :: "rat \<Rightarrow> int" where
  "ilog2 x = (if 1 \<le> x then bitlen \<lfloor>x\<rfloor> - 1 else - bitlen (\<lceil>1 / x\<rceil> - 1))"

definition roundTiesToEven :: "rat \<Rightarrow> int" where
  "roundTiesToEven x =
     (let q = \<lfloor>x\<rfloor>; r = x - of_int q
      in if r < 1 / 2 then q else if 1 / 2 < r then q + 1 else if even q then q else q + 1)"

definition toDouble :: "rat \<Rightarrow> rat" where
  "toDouble x =
     (if x = 0 then 0
      else let e = ilog2 \<bar>x\<bar> - 52
           in sgn x * of_int (roundTiesToEven (\<bar>x\<bar> / 2 powi e)) * 2 powi e)"

text \<open>\<open>parseFloat\<close> of the decimal string of an integer, and the operations \<open>-\<close>, \<open>*\<close> and
  \<open>/\<close> on numbers.\<close>

definition parseFloat :: "int \<Rightarrow> rat" where
  "parseFloat v = toDouble (of_int v)"

definition fsub :: "rat \<Rightarrow> rat \<Rightarrow> rat" where
  "fsub a b = toDouble (a - b)"

definition fmul :: "rat \<Rightarrow> rat \<Rightarrow> rat" where
  "fmul a b = toDouble (a * b)"

definition fdiv :: "rat \<Rightarrow> rat \<Rightarrow> rat" where
  "fdiv a b = toDouble (a / b)"

section \<open>Token flow analyzer (\<open>services/token.ts\<close>)\<close>

record TokenInfo =
  ti_hash :: string
  ti_name :: string
  ti_symbol :: string

record Transaction =
  tx_timestamp :: int
  tx_from :: string
  tx_to :: string
  tx_value :: int
  tx_txHash :: string
  tx_status :: bool
  tx_token :: "TokenInfo option"

record LargeTransfer =
  lt_txHash :: string
  lt_from :: string
  lt_to :: string
  lt_value :: int
  lt_timestamp :: int

record BurnTransaction =
  bt_txHash :: string
  bt_from :: string
  bt_value :: int
  bt_timestamp :: int

text \<open>\<open>FlowMetrics\<close>. The ranking tables (\<open>topSenders\<close>, \<open>topReceivers\<close>) and the average
  and median sizes are computed by the source from the same inputs and feed only the alert
  rules; they are not part of this record.\<close>

record FlowMetrics =
  fm_totalTransfers :: nat
  fm_totalVolume :: int
  fm_uniqueAddresses :: "string list"
  fm_largeTransfers :: "LargeTransfer list"
  fm_burnTransactions :: "BurnTransaction list"
  fm_last1h :: int
  fm_last6h :: int
  fm_last24h :: int
  fm_transferFrequency :: nat
  fm_processedTransactionHashes :: "string list"

record MemeCoinSnapshot =
  mc_tokenAddress :: string
  mc_network :: string
  mc_tokenInfo :: TokenInfo
  mc_timestamp :: int
  mc_flowMetrics :: FlowMetrics
  mc_transactionsAnalyzed :: nat
  mc_newTransactionsThisBatch :: nat
  mc_cumulativeTransactions :: nat
  mc_dataQuality :: string

record TokenConfig =
  tc_address :: string
  tc_largeTransfer :: int

definition BURN_ADDRESS :: string where
  "BURN_ADDRESS = ''0x0000000000000000000000000000000000000000''"

datatype token_endpoint = Erc20Transfers | TokenTransactions | ContractTransactions

text \<open>The \<open>for (const endpoint of endpoints)\<close> loop of \<open>fetchLatestTransactions\<close>: the first
  response with a truthy \<open>items\<close> or \<open>transfers\<close> member is kept (an empty array is truthy);
  a request that throws is skipped.\<close>

fun try_endpoints ::
  "(token_endpoint \<Rightarrow> Transaction response) \<Rightarrow> token_endpoint list
    \<Rightarrow> (Transaction list option \<times> Transaction list option) option" where
  "try_endpoints upstream [] = None"
| "try_endpoints upstream (e # es) =
     (case upstream e of
        RequestFailed \<Rightarrow> try_endpoints upstream es
      | Body items transfers \<Rightarrow>
          (if items \<noteq> None \<or> transfers \<noteq> None then Some (items, transfers)
           else try_endpoints upstream es))"

definition first_token :: "Transaction list \<Rightarrow> TokenInfo option" where
  "first_token transactions = (case transactions of [] \<Rightarrow> None | t # _ \<Rightarrow> tx_token t)"

definition fetchLatestTransactions ::
  "(token_endpoint \<Rightarrow> Transaction response) \<Rightarrow> Transaction list \<times> TokenInfo option" where
  "fetchLatestTransactions upstream =
     (case try_endpoints upstream [Erc20Transfers, TokenTransactions, ContractTransactions] of
        None \<Rightarrow> ([], None)
      | Some (items, transfers) \<Rightarrow>
          (let transactions =
                 (case items of Some xs \<Rightarrow> xs
                  | None \<Rightarrow> (case transfers of Some ys \<Rightarrow> ys | None \<Rightarrow> []))
           in (transactions, first_token transactions)))"

definition getNewTransactions ::
  "Transaction list \<Rightarrow> MemeCoinSnapshot option \<Rightarrow> Transaction list" where
  "getNewTransactions latestTransactions previousSnapshot =
     (case previousSnapshot of
        None \<Rightarrow> latestTransactions
      | Some prev \<Rightarrow>
          filter (\<lambda>tx. tx_txHash tx \<notin> set (fm_processedTransactionHashes (mc_flowMetrics prev)))
            latestTransactions)"

text \<open>The accumulators that the \<open>newTransactions.forEach\<close> loop of
  \<open>analyzeCumulativeFlows\<close> updates. The test \<open>Number(value) >= thresholds.largeTransfer\<close>
  is taken on the exact integers.\<close>

record flow_acc =
  fa_newVolume :: int
  fa_uniqueAddresses :: "string list"
  fa_volume1h :: int
  fa_volume6h :: int
  fa_volume24h :: int
  fa_newLargeTransfers :: "LargeTransfer list"
  fa_newBurnTransactions :: "BurnTransaction list"

definition flow_step :: "TokenConfig \<Rightarrow> int \<Rightarrow> flow_acc \<Rightarrow> Transaction \<Rightarrow> flow_acc" where
  "flow_step config now acc tx =
     (if \<not> tx_status tx then acc
      else
        let v = tx_value tx;
            t = tx_timestamp tx
        in acc
          \<lparr> fa_newVolume := fa_newVolume acc + v,
            fa_uniqueAddresses :=
              set_add (toLowerCase (tx_to tx))
                (set_add (toLowerCase (tx_from tx)) (fa_uniqueAddresses acc)),
            fa_volume1h := (if t \<ge> now - 60 * 60 * 1000 then fa_volume1h acc + v
                            else fa_volume1h acc),
            fa_volume6h := (if t \<ge> now - 6 * 60 * 60 * 1000 then fa_volume6h acc + v
                            else fa_volume6h acc),
            fa_volume24h := (if t \<ge> now - 24 * 60 * 60 * 1000 then fa_volume24h acc + v
                             else fa_volume24h acc),
            fa_newLargeTransfers :=
              (if v \<ge> tc_largeTransfer config
               then fa_newLargeTransfers acc @
                 [\<lparr> lt_txHash = tx_txHash tx, lt_from = tx_from tx, lt_to = tx_to tx,
                    lt_value = v, lt_timestamp = t \<rparr>]
               else fa_newLargeTransfers acc),
            fa_newBurnTransactions :=
              (if toLowerCase (tx_to tx) = toLowerCase BURN_ADDRESS
               then fa_newBurnTransactions acc @
                 [\<lparr> bt_txHash = tx_txHash tx, bt_from = tx_from tx,
                    bt_value = v, bt_timestamp = t \<rparr>]
               else fa_newBurnTransactions acc) \<rparr>)"

definition analyzeCumulativeFlows ::
  "Transaction list \<Rightarrow> TokenConfig \<Rightarrow> MemeCoinSnapshot option \<Rightarrow> int \<Rightarrow> FlowMetrics" where
  "analyzeCumulativeFlows newTransactions config previousSnapshot now =
     (let previousMetrics = map_option mc_flowMetrics previousSnapshot;
          acc0 =
            \<lparr> fa_newVolume = 0,
              fa_uniqueAddresses =
                new_Set (case previousMetrics of None \<Rightarrow> [] | Some m \<Rightarrow> fm_uniqueAddresses m),
              fa_volume1h = (case previousMetrics of None \<Rightarrow> 0 | Some m \<Rightarrow> fm_last1h m),
              fa_volume6h = (case previousMetrics of None \<Rightarrow> 0 | Some m \<Rightarrow> fm_last6h m),
              fa_volume24h = (case previousMetrics of None \<Rightarrow> 0 | Some m \<Rightarrow> fm_last24h m),
              fa_newLargeTransfers = [],
              fa_newBurnTransactions = [] \<rparr>;
          acc = foldl (flow_step config now) acc0 newTransactions;
          allLargeTransfers =
            take 100 (fa_newLargeTransfers acc @
              (case previousMetrics of None \<Rightarrow> [] | Some m \<Rightarrow> take 50 (fm_largeTransfers m)));
          allBurnTransactions =
            take 100 (fa_newBurnTransactions acc @
              (case previousMetrics of None \<Rightarrow> [] | Some m \<Rightarrow> take 50 (fm_burnTransactions m)));
          previousTotalVolume = (case previousMetrics of None \<Rightarrow> 0 | Some m \<Rightarrow> fm_totalVolume m);
          previousTransferCount =
            (case previousMetrics of None \<Rightarrow> 0 | Some m \<Rightarrow> fm_totalTransfers m);
          processedTransactionHashes =
            take 1000 (map tx_txHash newTransactions @
              (case previousMetrics of None \<Rightarrow> []
               | Some m \<Rightarrow> fm_processedTransactionHashes m))
      in \<lparr> fm_totalTransfers = previousTransferCount + length newTransactions,
           fm_totalVolume = previousTotalVolume + fa_newVolume acc,
           fm_uniqueAddresses = fa_uniqueAddresses acc,
           fm_largeTransfers = allLargeTransfers,
           fm_burnTransactions = allBurnTransactions,
           fm_last1h = fa_volume1h acc,
           fm_last6h = fa_volume6h acc,
           fm_last24h = fa_volume24h acc,
           fm_transferFrequency = length newTransactions,
           fm_processedTransactionHashes = processedTransactionHashes \<rparr>)"

text \<open>\<open>findOne({tokenAddress, network}).sort({timestamp: -1})\<close>: of the matching documents
  the one with the greatest timestamp (the earliest inserted of these on a tie).\<close>

fun newest :: "('a \<Rightarrow> int) \<Rightarrow> 'a list \<Rightarrow> 'a option" where
  "newest ts [] = None"
| "newest ts (x # xs) =
     (case newest ts xs of
        None \<Rightarrow> Some x
      | Some y \<Rightarrow> (if ts y > ts x then Some y else Some x))"

definition latestMemeCoinSnapshot ::
  "MemeCoinSnapshot list \<Rightarrow> string \<Rightarrow> string \<Rightarrow> MemeCoinSnapshot option" where
  "latestMemeCoinSnapshot store address network =
     newest mc_timestamp
       (filter (\<lambda>s. mc_tokenAddress s = address \<and> mc_network s = network) store)"

text \<open>\<open>snapshot.save()\<close> runs the schema validators. Those of \<open>MemeCoinSnapshotSchema\<close>
  that read a modelled field are the \<open>network\<close> enum, the \<open>dataQuality\<close> enum and the
  required \<open>tokenAddress\<close> (a required string must be non-empty).\<close>

definition saveMemeCoinSnapshot ::
  "MemeCoinSnapshot \<Rightarrow> MemeCoinSnapshot list \<Rightarrow> error + MemeCoinSnapshot list" where
  "saveMemeCoinSnapshot snapshot store =
     (if mc_tokenAddress snapshot \<noteq> [] \<and> networkEnum (mc_network snapshot)
          \<and> mc_dataQuality snapshot \<in> set [''LIMITED'', ''PARTIAL'', ''COMPLETE'']
      then Inr (store @ [snapshot])
      else Inl ValidationError)"

text \<open>\<open>analyzeCoinFlows\<close>: the result is the thrown error, or the returned value (\<open>None\<close> is
  \<open>null\<close>) together with the collection after the cycle.\<close>

definition analyzeCoinFlows ::
  "TokenConfig \<Rightarrow> string \<Rightarrow> (token_endpoint \<Rightarrow> Transaction response) \<Rightarrow> int
    \<Rightarrow> MemeCoinSnapshot list \<Rightarrow> error + (MemeCoinSnapshot option \<times> MemeCoinSnapshot list)" where
  "analyzeCoinFlows config network upstream now store =
     (case getNetworkConfig network of
        Inl e \<Rightarrow> Inl e
      | Inr _ \<Rightarrow>
         (if \<not> isValidEthereumAddress (tc_address config) then Inl InvalidAddressFormat
          else
            (case fetchLatestTransactions upstream of
               (latestTransactions, None) \<Rightarrow> Inl CouldNotFetchTokenInfo
             | (latestTransactions, Some info) \<Rightarrow>
                (let previousSnapshot = latestMemeCoinSnapshot store (tc_address config) network;
                     newTransactions = getNewTransactions latestTransactions previousSnapshot
                 in if length newTransactions = 0 then Inr (None, store)
                    else
                      (let flowMetrics =
                             analyzeCumulativeFlows newTransactions config previousSnapshot now;
                           snapshot =
                             \<lparr> mc_tokenAddress = tc_address config,
                               mc_network = network,
                               mc_tokenInfo = info,
                               mc_timestamp = now,
                               mc_flowMetrics = flowMetrics,
                               mc_transactionsAnalyzed = length latestTransactions,
                               mc_newTransactionsThisBatch = length newTransactions,
                               mc_cumulativeTransactions = fm_totalTransfers flowMetrics,
                               mc_dataQuality =
                                 (if fm_totalTransfers flowMetrics > 100 then ''COMPLETE''
                                  else if fm_totalTransfers flowMetrics > 10 then ''PARTIAL''
                                  else ''LIMITED'') \<rparr>
                       in (case saveMemeCoinSnapshot snapshot store of
                             Inl e \<Rightarrow> Inl e
                           | Inr store' \<Rightarrow> Inr (Some snapshot, store')))))))"

section \<open>NFT movement analyzer (\<open>services/nft.ts\<close>)\<close>

record NFTTokenInfo =
  ni_hash :: string
  ni_name :: string
  ni_symbol :: string
  ni_totalSupply :: string

record NFTTransaction =
  nx_timestamp :: int
  nx_from :: string
  nx_to :: string
  nx_tokenItemId :: string
  nx_txHash :: string
  nx_status :: bool
  nx_fee :: int
  nx_token :: "NFTTokenInfo option"

record TransferHistory =
  th_tokenId :: string
  th_from :: string
  th_to :: string
  th_txHash :: string
  th_timestamp :: int
  th_fee :: int

record MintTransaction =
  mt_tokenId :: string
  mt_to :: string
  mt_txHash :: string
  mt_timestamp :: int
  mt_fee :: int

record NFTBurnTransaction =
  nb_tokenId :: string
  nb_from :: string
  nb_txHash :: string
  nb_timestamp :: int
  nb_fee :: int

text \<open>
  The holder map. \<open>updateHolderMetrics\<close> builds \<open>currentHolders\<close> as a plain object from token
  identifier to owner; \<open>NFTMovementMetricsSchema\<close> declares the path as
  \<open>{type: Map, of: String, default: {}}\<close>, so the object is cast to a \<open>Map\<close> when the document
  is built, and a document read back from the collection carries a \<open>Map\<close> on this path.

  An object is the list of its own enumerable properties. A property of \<open>currentHolders\<close>
  holds an owner address or, when the object was made by spreading a \<open>Map\<close> of a stored
  document, one of the bookkeeping values that the schema library keeps on the \<open>Map\<close>
  object itself. The entries of a \<open>Map\<close> are not properties of the object, so the spread
  copies the bookkeeping properties and none of the entries. The library is not part of
  the repository; the names below are those of its \<open>Map\<close> type, and what the cycle depends on
  is that there is such a property and that its name starts with \<open>$\<close>. The order in which
  an object enumerates its properties is not modelled: no modelled field reads it.
\<close>

datatype holder_value = Owner string | MapBookkeeping

definition spread_Map :: "(string \<times> holder_value) list \<Rightarrow> (string \<times> holder_value) list" where
  "spread_Map entries =
     [(''$__parent'', MapBookkeeping), (''$__path'', MapBookkeeping),
      (''$__schemaType'', MapBookkeeping)]"

text \<open>The assignment \<open>object[key] = value\<close>.\<close>

fun object_set ::
  "string \<Rightarrow> holder_value \<Rightarrow> (string \<times> holder_value) list \<Rightarrow> (string \<times> holder_value) list" where
  "object_set k v [] = [(k, v)]"
| "object_set k v ((k', v') # ps) =
     (if k = k' then (k, v) # ps else (k', v') # object_set k v ps)"

text \<open>The cast of an object to a \<open>Map\<close> of strings: the library refuses a key that starts
  with \<open>$\<close> or contains a dot, and a value that is not a string.\<close>

definition castToMap :: "(string \<times> holder_value) list \<Rightarrow> bool" where
  "castToMap object =
     list_all (\<lambda>(k, v). take 1 k \<noteq> ''$'' \<and> CHR ''.'' \<notin> set k
                 \<and> (case v of Owner a \<Rightarrow> True | MapBookkeeping \<Rightarrow> False)) object"

text \<open>\<open>NFTMovementMetrics\<close>. The tables derived from the holder map (\<open>topHolders\<close>,
  \<open>mostActiveTraders\<close>, \<open>mostTradedTokens\<close>) and the fee buckets feed only the alert rules and
  the risk score; they are not part of this record.\<close>

record NFTMovementMetrics =
  nm_totalTransfers :: nat
  nm_uniqueHolders :: "string list"
  nm_currentHolders :: "(string \<times> holder_value) list"
  nm_transferHistory :: "TransferHistory list"
  nm_mintTransactions :: "MintTransaction list"
  nm_burnTransactions :: "NFTBurnTransaction list"
  nm_last1h :: nat
  nm_last6h :: nat
  nm_last24h :: nat
  nm_transferFrequency :: nat
  nm_flippingActivity :: nat
  nm_totalFeesGenerated :: int
  nm_processedTransactionHashes :: "string list"

record NFTSnapshot =
  ns_tokenAddress :: string
  ns_network :: string
  ns_tokenInfo :: NFTTokenInfo
  ns_timestamp :: int
  ns_movementMetrics :: NFTMovementMetrics
  ns_transactionsAnalyzed :: nat
  ns_newTransactionsThisBatch :: nat
  ns_cumulativeTransactions :: nat
  ns_dataQuality :: string

record NFTConfig =
  nc_address :: string

definition ZERO_ADDRESS :: string where
  "ZERO_ADDRESS = ''0x0000000000000000000000000000000000000000''"

text \<open>\<open>fetchLatestNFTTransactions\<close> asks one endpoint; a request that throws and a body
  without \<open>items\<close> both end in the \<open>catch\<close> that returns the empty result.\<close>

definition first_nft_token :: "NFTTransaction list \<Rightarrow> NFTTokenInfo option" where
  "first_nft_token transactions = (case transactions of [] \<Rightarrow> None | t # _ \<Rightarrow> nx_token t)"

definition fetchLatestNFTTransactions ::
  "NFTTransaction response \<Rightarrow> NFTTransaction list \<times> NFTTokenInfo option" where
  "fetchLatestNFTTransactions upstream =
     (case upstream of
        RequestFailed \<Rightarrow> ([], None)
      | Body None transfers \<Rightarrow> ([], None)
      | Body (Some transactions) transfers \<Rightarrow> (transactions, first_nft_token transactions))"

definition getNewNFTTransactions ::
  "NFTTransaction list \<Rightarrow> NFTSnapshot option \<Rightarrow> NFTTransaction list" where
  "getNewNFTTransactions latestTransactions previousSnapshot =
     (case previousSnapshot of
        None \<Rightarrow> latestTransactions
      | Some prev \<Rightarrow>
          filter
            (\<lambda>tx. nx_txHash tx \<notin> set (nm_processedTransactionHashes (ns_movementMetrics prev)))
            latestTransactions)"

text \<open>\<open>updateHolderMetrics\<close>, the component \<open>currentHolders\<close> of its result: the spread of the
  previous holder map, or the empty object, then one assignment for each new transaction
  whose \<open>status\<close> is true.\<close>

definition updateHolderMetrics ::
  "NFTTransaction list \<Rightarrow> NFTMovementMetrics option \<Rightarrow> (string \<times> holder_value) list" where
  "updateHolderMetrics newTransactions previousMetrics =
     foldl (\<lambda>currentHolders tx.
              if \<not> nx_status tx then currentHolders
              else object_set (nx_tokenItemId tx) (Owner (toLowerCase (nx_to tx))) currentHolders)
       (case previousMetrics of None \<Rightarrow> [] | Some m \<Rightarrow> spread_Map (nm_currentHolders m))
       newTransactions"

text \<open>The accumulators of the \<open>newTransactions.forEach\<close> loop of
  \<open>analyzeCumulativeNFTMovements\<close>.\<close>

record nft_acc =
  na_uniqueHolders :: "string list"
  na_transfers1h :: nat
  na_transfers6h :: nat
  na_transfers24h :: nat
  na_totalFees :: int
  na_flippingCount :: nat
  na_newTransferHistory :: "TransferHistory list"
  na_newMintTransactions :: "MintTransaction list"
  na_newBurnTransactions :: "NFTBurnTransaction list"

definition nft_step :: "int \<Rightarrow> nft_acc \<Rightarrow> NFTTransaction \<Rightarrow> nft_acc" where
  "nft_step now acc tx =
     (if \<not> nx_status tx then acc
      else
        let t = nx_timestamp tx;
            acc1 = acc
              \<lparr> na_uniqueHolders :=
                  set_add (toLowerCase (nx_to tx))
                    (set_add (toLowerCase (nx_from tx)) (na_uniqueHolders acc)),
                na_transfers1h := (if t \<ge> now - 60 * 60 * 1000 then na_transfers1h acc + 1
                                   else na_transfers1h acc),
                na_transfers6h := (if t \<ge> now - 6 * 60 * 60 * 1000 then na_transfers6h acc + 1
                                   else na_transfers6h acc),
                na_transfers24h := (if t \<ge> now - 24 * 60 * 60 * 1000 then na_transfers24h acc + 1
                                    else na_transfers24h acc),
                na_totalFees := na_totalFees acc + nx_fee tx \<rparr>
        in if toLowerCase (nx_from tx) = toLowerCase ZERO_ADDRESS
           then acc1 \<lparr> na_newMintTransactions := na_newMintTransactions acc1 @
                  [\<lparr> mt_tokenId = nx_tokenItemId tx, mt_to = nx_to tx, mt_txHash = nx_txHash tx,
                     mt_timestamp = t, mt_fee = nx_fee tx \<rparr>] \<rparr>
           else if toLowerCase (nx_to tx) = toLowerCase ZERO_ADDRESS
           then acc1 \<lparr> na_newBurnTransactions := na_newBurnTransactions acc1 @
                  [\<lparr> nb_tokenId = nx_tokenItemId tx, nb_from = nx_from tx,
                     nb_txHash = nx_txHash tx, nb_timestamp = t, nb_fee = nx_fee tx \<rparr>] \<rparr>
           else acc1
                \<lparr> na_newTransferHistory := na_newTransferHistory acc1 @
                    [\<lparr> th_tokenId = nx_tokenItemId tx, th_from = nx_from tx, th_to = nx_to tx,
                       th_txHash = nx_txHash tx, th_timestamp = t, th_fee = nx_fee tx \<rparr>],
                  na_flippingCount := (if t \<ge> now - 24 * 60 * 60 * 1000
                                       then na_flippingCount acc1 + 1
                                       else na_flippingCount acc1) \<rparr>)"

definition analyzeCumulativeNFTMovements ::
  "NFTTransaction list \<Rightarrow> NFTConfig \<Rightarrow> NFTSnapshot option \<Rightarrow> int \<Rightarrow> NFTMovementMetrics" where
  "analyzeCumulativeNFTMovements newTransactions config previousSnapshot now =
     (let previousMetrics = map_option ns_movementMetrics previousSnapshot;
          currentHolders = updateHolderMetrics newTransactions previousMetrics;
          acc0 =
            \<lparr> na_uniqueHolders =
                new_Set (case previousMetrics of None \<Rightarrow> [] | Some m \<Rightarrow> nm_uniqueHolders m),
              na_transfers1h = (case previousMetrics of None \<Rightarrow> 0 | Some m \<Rightarrow> nm_last1h m),
              na_transfers6h = (case previousMetrics of None \<Rightarrow> 0 | Some m \<Rightarrow> nm_last6h m),
              na_transfers24h = (case previousMetrics of None \<Rightarrow> 0 | Some m \<Rightarrow> nm_last24h m),
              na_totalFees =
                (case previousMetrics of None \<Rightarrow> 0 | Some m \<Rightarrow> nm_totalFeesGenerated m),
              na_flippingCount = 0,
              na_newTransferHistory = [],
              na_newMintTransactions = [],
              na_newBurnTransactions = [] \<rparr>;
          acc = foldl (nft_step now) acc0 newTransactions;
          allTransferHistory =
            take 1000 (na_newTransferHistory acc @
              (case previousMetrics of None \<Rightarrow> [] | Some m \<Rightarrow> take 500 (nm_transferHistory m)));
          allMintTransactions =
            take 500 (na_newMintTransactions acc @
              (case previousMetrics of None \<Rightarrow> []
               | Some m \<Rightarrow> take 200 (nm_mintTransactions m)));
          allBurnTransactions =
            take 500 (na_newBurnTransactions acc @
              (case previousMetrics of None \<Rightarrow> []
               | Some m \<Rightarrow> take 200 (nm_burnTransactions m)));
          previousTotalTransfers =
            (case previousMetrics of None \<Rightarrow> 0 | Some m \<Rightarrow> nm_totalTransfers m);
          processedTransactionHashes =
            take 2000 (map nx_txHash newTransactions @
              (case previousMetrics of None \<Rightarrow> []
               | Some m \<Rightarrow> nm_processedTransactionHashes m))
      in \<lparr> nm_totalTransfers = previousTotalTransfers + length newTransactions,
           nm_uniqueHolders = na_uniqueHolders acc,
           nm_currentHolders = currentHolders,
           nm_transferHistory = allTransferHistory,
           nm_mintTransactions = allMintTransactions,
           nm_burnTransactions = allBurnTransactions,
           nm_last1h = na_transfers1h acc,
           nm_last6h = na_transfers6h acc,
           nm_last24h = na_transfers24h acc,
           nm_transferFrequency = length newTransactions,
           nm_flippingActivity = na_flippingCount acc,
           nm_totalFeesGenerated = na_totalFees acc,
           nm_processedTransactionHashes = processedTransactionHashes \<rparr>)"

text \<open>\<open>NFTSnapshotSchema\<close> declares \<open>tokenAddress\<close> with \<open>lowercase: true\<close>: the setter
  lower-cases the address when a document is built and when a query filter is cast.\<close>

definition latestNFTSnapshot :: "NFTSnapshot list \<Rightarrow> string \<Rightarrow> string \<Rightarrow> NFTSnapshot option" where
  "latestNFTSnapshot store address network =
     newest ns_timestamp
       (filter (\<lambda>s. ns_tokenAddress s = toLowerCase address \<and> ns_network s = network) store)"

text \<open>The validators of \<open>NFTSnapshotSchema\<close> that read a modelled field: the \<open>network\<close> and
  \<open>dataQuality\<close> enums, the required strings (a required string must be non-empty) and the
  cast of \<open>currentHolders\<close>. A failed cast is reported by \<open>save\<close> as a validation error.\<close>

definition nftSchemaValid :: "NFTSnapshot \<Rightarrow> bool" where
  "nftSchemaValid s =
     (ns_tokenAddress s \<noteq> [] \<and> networkEnum (ns_network s)
      \<and> ni_hash (ns_tokenInfo s) \<noteq> [] \<and> ni_name (ns_tokenInfo s) \<noteq> []
      \<and> ni_symbol (ns_tokenInfo s) \<noteq> [] \<and> ni_totalSupply (ns_tokenInfo s) \<noteq> []
      \<and> castToMap (nm_currentHolders (ns_movementMetrics s))
      \<and> list_all (\<lambda>h. th_tokenId h \<noteq> [] \<and> th_from h \<noteq> [] \<and> th_to h \<noteq> [] \<and> th_txHash h \<noteq> [])
           (nm_transferHistory (ns_movementMetrics s))
      \<and> list_all (\<lambda>m. mt_tokenId m \<noteq> [] \<and> mt_to m \<noteq> [] \<and> mt_txHash m \<noteq> [])
           (nm_mintTransactions (ns_movementMetrics s))
      \<and> list_all (\<lambda>b. nb_tokenId b \<noteq> [] \<and> nb_from b \<noteq> [] \<and> nb_txHash b \<noteq> [])
           (nm_burnTransactions (ns_movementMetrics s))
      \<and> ns_dataQuality s \<in> set [''COMPLETE'', ''PARTIAL'', ''LIMITED''])"

definition saveNFTSnapshot :: "NFTSnapshot \<Rightarrow> NFTSnapshot list \<Rightarrow> error + NFTSnapshot list" where
  "saveNFTSnapshot snapshot store =
     (if nftSchemaValid snapshot then Inr (store @ [snapshot]) else Inl ValidationError)"

definition analyzeNFTMovements ::
  "NFTConfig \<Rightarrow> string \<Rightarrow> NFTTransaction response \<Rightarrow> int
    \<Rightarrow> NFTSnapshot list \<Rightarrow> error + (NFTSnapshot option \<times> NFTSnapshot list)" where
  "analyzeNFTMovements config network upstream now store =
     (case getNetworkConfig network of
        Inl e \<Rightarrow> Inl e
      | Inr _ \<Rightarrow>
         (if \<not> isValidEthereumAddress (nc_address config) then Inl InvalidAddressFormat
          else
            (case fetchLatestNFTTransactions upstream of
               (latestTransactions, None) \<Rightarrow> Inl CouldNotFetchTokenInfo
             | (latestTransactions, Some info) \<Rightarrow>
                (let previousSnapshot = latestNFTSnapshot store (nc_address config) network;
                     newTransactions = getNewNFTTransactions latestTransactions previousSnapshot
                 in if length newTransactions = 0 then Inr (None, store)
                    else
                      (let movementMetrics =
                             analyzeCumulativeNFTMovements newTransactions config
                               previousSnapshot now;
                           snapshot =
                             \<lparr> ns_tokenAddress = toLowerCase (nc_address config),
                               ns_network = network,
                               ns_tokenInfo = info,
                               ns_timestamp = now,
                               ns_movementMetrics = movementMetrics,
                               ns_transactionsAnalyzed = length latestTransactions,
                               ns_newTransactionsThisBatch = length newTransactions,
                               ns_cumulativeTransactions = nm_totalTransfers movementMetrics,
                               ns_dataQuality =
                                 (if nm_totalTransfers movementMetrics > 100 then ''COMPLETE''
                                  else if nm_totalTransfers movementMetrics > 10 then ''PARTIAL''
                                  else ''LIMITED'') \<rparr>
                       in (case saveNFTSnapshot snapshot store of
                             Inl e \<Rightarrow> Inl e
                           | Inr store' \<Rightarrow> Inr (Some snapshot, store')))))))"

section \<open>Wallet analyzer (\<open>services/run.ts\<close>)\<close>

text \<open>
  Numbers. The values, fees and gas amounts of the feed are decimal strings of integers
  (the cycle passes them to \<open>BigInt\<close>); \<open>parseFloat\<close> reads such a string as the nearest
  double. The length of an array is below \<open>2^32\<close> and so is a number without rounding. The
  portfolio value, which \<open>calculatePortfolioValue\<close> computes from the balance and a price
  table, is an input of the model (\<open>we_portfolioTotal\<close>).
\<close>

record WalletTransaction =
  wt_hash :: string
  wt_timestamp :: int
  wt_value :: int
  wt_fee :: int
  wt_type :: int
  wt_actionType :: string
  wt_from :: string
  wt_to :: string
  wt_data :: "string option"
  wt_method :: "string option"
  wt_gasPrice :: int
  wt_gasUsedByTransaction :: int
  wt_status :: bool

datatype severity = LOW | MEDIUM | HIGH

record Alert =
  al_type :: string
  al_severity :: severity

record Erc20Token =
  e20_contractAddress :: string
  e20_balance :: string

record Erc721Token =
  e721_tokenId :: string
  e721_contractAddress :: string

record TransactionMetrics =
  tm_totalIncoming :: int
  tm_totalOutgoing :: int
  tm_totalGasUsed :: int
  tm_totalFeesPaid :: int
  tm_contractInteractions :: nat
  tm_nativeTransfers :: nat
  tm_executionTransactions :: nat
  tm_uniqueContracts :: "string list"
  tm_transactionCategories :: "(string \<times> nat) list"
  tm_avgGasPrice :: int
  tm_avgTransactionValue :: int
  tm_failedTransactions :: nat
  tm_lastActivityTime :: "int option"

text \<open>In \<open>ws_erc20Tokens\<close> and \<open>ws_erc721Tokens\<close> the value \<open>None\<close> is the string \<open>"N/A"\<close>
  that the source stores when the holdings could not be fetched.\<close>

record WalletSnapshot =
  ws_walletAddress :: string
  ws_network :: string
  ws_timestamp :: int
  ws_ethBalance :: string
  ws_erc20Tokens :: "Erc20Token list option"
  ws_erc721Tokens :: "Erc721Token list option"
  ws_transactionsAnalyzed :: int
  ws_transactionMetrics :: TransactionMetrics
  ws_portfolioTotal :: rat
  ws_riskScore :: nat
  ws_alerts :: "Alert list"
  ws_apiEndpointsUsed :: "string list"
  ws_dataQuality :: string

text \<open>A truthy string is a non-empty one.\<close>

definition truthy :: "string \<Rightarrow> bool" where
  "truthy s = (s \<noteq> [])"

definition defiMethods :: "(string \<times> string) list" where
  "defiMethods =
     [(''0xa9059cbb'', ''ERC20_TRANSFER''),
      (''0x23b872dd'', ''ERC20_TRANSFER_FROM''),
      (''0x095ea7b3'', ''ERC20_APPROVE''),
      (''0x7c025200'', ''UNISWAP_SWAP''),
      (''0x38ed1739'', ''UNISWAP_SWAP_EXACT_TOKENS''),
      (''0x8803dbee'', ''UNISWAP_SWAP_TOKENS_SUPPORTING_FEE''),
      (''0xb6f9de95'', ''SUSHISWAP_SWAP''),
      (''0xe8e33700'', ''COMPOUND_MINT''),
      (''0xdb006a75'', ''COMPOUND_REDEEM''),
      (''0xf2fde38b'', ''OWNERSHIP_TRANSFER''),
      (''0x42842e0e'', ''NFT_SAFE_TRANSFER_FROM''),
      (''0xff0d7c2f'', ''CUSTOM_EXECUTION'')]"

definition categorizeTransaction :: "WalletTransaction \<Rightarrow> string" where
  "categorizeTransaction tx =
     (case wt_data tx of
        None \<Rightarrow> (if wt_type tx = 0 then ''NATIVE_TRANSFER'' else ''SIMPLE_CONTRACT_CALL'')
      | Some d \<Rightarrow>
          (if \<not> truthy d \<or> d = ''0x'' \<or> d = ''0''
           then (if wt_type tx = 0 then ''NATIVE_TRANSFER'' else ''SIMPLE_CONTRACT_CALL'')
           else
             (let methodId =
                    (case wt_method tx of
                       Some m \<Rightarrow> (if truthy m then m else take 10 d)
                     | None \<Rightarrow> take 10 d)
              in (case map_of defiMethods methodId of
                    Some label \<Rightarrow> label
                  | None \<Rightarrow> ''UNKNOWN_CONTRACT_INTERACTION''))))"

text \<open>\<open>BigInt\<close> division rounds towards zero.\<close>

definition bigint_div :: "int \<Rightarrow> int \<Rightarrow> int" where
  "bigint_div a b = sgn a * sgn b * (\<bar>a\<bar> div \<bar>b\<bar>)"

definition count_category :: "string \<Rightarrow> nat \<Rightarrow> (string \<times> nat) list \<Rightarrow> (string \<times> nat) list" where
  "count_category category n cats =
     (case map_of cats category of
        None \<Rightarrow> cats @ [(category, n)]
      | Some c \<Rightarrow> map (\<lambda>(k, v). if k = category then (k, v + n) else (k, v)) cats)"

text \<open>The body of \<open>transactions.forEach\<close> in \<open>createWalletSnapshot\<close>; the second component
  of the state is \<open>totalTransactionValue\<close>.\<close>

definition wallet_step ::
  "string \<Rightarrow> TransactionMetrics \<times> int \<Rightarrow> WalletTransaction \<Rightarrow> TransactionMetrics \<times> int" where
  "wallet_step wallet st tx =
     (let (m, total) = st;
          m1 = m \<lparr> tm_transactionCategories :=
                     count_category (categorizeTransaction tx) 1 (tm_transactionCategories m),
                   tm_lastActivityTime :=
                     (case tm_lastActivityTime m of
                        None \<Rightarrow> Some (wt_timestamp tx)
                      | Some t \<Rightarrow> (if wt_timestamp tx > t then Some (wt_timestamp tx)
                                   else Some t)) \<rparr>
      in if \<not> wt_status tx
         then (m1 \<lparr> tm_failedTransactions := tm_failedTransactions m1 + 1 \<rparr>, total)
         else
           (let m2 = (if truthy (wt_to tx) \<and> toLowerCase (wt_to tx) = toLowerCase wallet
                          \<and> wt_value tx > 0
                      then m1 \<lparr> tm_totalIncoming := tm_totalIncoming m1 + wt_value tx \<rparr>
                      else m1);
                outgoing = (truthy (wt_from tx) \<and> toLowerCase (wt_from tx) = toLowerCase wallet);
                m3 = (if outgoing \<and> wt_value tx > 0
                      then m2 \<lparr> tm_totalOutgoing := tm_totalOutgoing m2 + wt_value tx \<rparr>
                      else m2);
                total' = (if outgoing \<and> wt_value tx > 0 then total + wt_value tx else total);
                m4 = (if outgoing
                      then m3 \<lparr> tm_totalFeesPaid := tm_totalFeesPaid m3 + wt_fee tx,
                                tm_totalGasUsed :=
                                  tm_totalGasUsed m3 + wt_gasUsedByTransaction tx \<rparr>
                      else m3);
                m5 = (if wt_type tx = 0
                      then m4 \<lparr> tm_nativeTransfers := tm_nativeTransfers m4 + 1 \<rparr>
                      else if wt_type tx = 2
                      then m4 \<lparr> tm_contractInteractions := tm_contractInteractions m4 + 1,
                                tm_uniqueContracts :=
                                  (if truthy (wt_to tx)
                                   then set_add (toLowerCase (wt_to tx)) (tm_uniqueContracts m4)
                                   else tm_uniqueContracts m4) \<rparr>
                      else m4);
                m6 = (if wt_actionType tx = ''Execute''
                      then m5 \<lparr> tm_executionTransactions := tm_executionTransactions m5 + 1 \<rparr>
                      else m5)
            in (m6, total')))"

definition emptyMetrics :: TransactionMetrics where
  "emptyMetrics =
     \<lparr> tm_totalIncoming = 0, tm_totalOutgoing = 0, tm_totalGasUsed = 0, tm_totalFeesPaid = 0,
       tm_contractInteractions = 0, tm_nativeTransfers = 0, tm_executionTransactions = 0,
       tm_uniqueContracts = [], tm_transactionCategories = [], tm_avgGasPrice = 0,
       tm_avgTransactionValue = 0, tm_failedTransactions = 0, tm_lastActivityTime = None \<rparr>"

text \<open>Step 3 of \<open>createWalletSnapshot\<close>; \<open>None\<close> is the value \<open>"N/A"\<close> of \<open>transactions\<close>.\<close>

definition computeMetrics :: "string \<Rightarrow> WalletTransaction list option \<Rightarrow> TransactionMetrics" where
  "computeMetrics wallet transactions =
     (case transactions of
        None \<Rightarrow> emptyMetrics
      | Some txs \<Rightarrow>
          (let (m, total) = foldl (wallet_step wallet) (emptyMetrics, 0) txs;
               successfulTxs = length (filter wt_status txs)
           in if successfulTxs > 0
              then m \<lparr> tm_avgGasPrice :=
                         bigint_div (sum_list (map wt_gasPrice (filter wt_status txs)))
                           (int successfulTxs),
                       tm_avgTransactionValue := bigint_div total (int successfulTxs) \<rparr>
              else m))"

text \<open>Step 6: the merge with the metrics of the previous snapshot.\<close>

definition mergeWithPrevious :: "TransactionMetrics \<Rightarrow> WalletSnapshot option \<Rightarrow> TransactionMetrics" where
  "mergeWithPrevious finalMetrics previousSnapshot =
     (case previousSnapshot of
        None \<Rightarrow> finalMetrics
      | Some p \<Rightarrow>
          (let prev = ws_transactionMetrics p
           in finalMetrics
             \<lparr> tm_totalIncoming := tm_totalIncoming finalMetrics + tm_totalIncoming prev,
               tm_totalOutgoing := tm_totalOutgoing finalMetrics + tm_totalOutgoing prev,
               tm_totalGasUsed := tm_totalGasUsed finalMetrics + tm_totalGasUsed prev,
               tm_totalFeesPaid := tm_totalFeesPaid finalMetrics + tm_totalFeesPaid prev,
               tm_contractInteractions :=
                 tm_contractInteractions finalMetrics + tm_contractInteractions prev,
               tm_nativeTransfers := tm_nativeTransfers finalMetrics + tm_nativeTransfers prev,
               tm_executionTransactions :=
                 tm_executionTransactions finalMetrics + tm_executionTransactions prev,
               tm_failedTransactions :=
                 tm_failedTransactions finalMetrics + tm_failedTransactions prev,
               tm_uniqueContracts :=
                 new_Set (tm_uniqueContracts prev @ tm_uniqueContracts finalMetrics),
               tm_transactionCategories :=
                 foldl (\<lambda>cats (category, n). count_category category n cats)
                   (tm_transactionCategories finalMetrics) (tm_transactionCategories prev) \<rparr>))"

text \<open>\<open>calculateRiskScore(transactions, metrics)\<close>. \<open>riskScoreBeforeCap\<close> is the value of the
  variable \<open>riskScore\<close> when the \<open>return\<close> is reached: the base score and the six pattern
  rules. The function has no other input. \<open>Math.pow(10, 20)\<close> is the number \<open>10^20\<close>, which
  is a double; the literals \<open>0.1\<close> and \<open>0.5\<close> are the doubles nearest to them.\<close>

definition riskScoreBeforeCap :: "WalletTransaction list \<Rightarrow> TransactionMetrics \<Rightarrow> nat" where
  "riskScoreBeforeCap transactions metrics =
     (let n = length transactions;
          r0 = (1::nat);
          r1 = (if n > 50 then r0 + 1 else r0);
          largeTransactions = filter (\<lambda>tx. parseFloat (wt_value tx) > 10 ^ 20) transactions;
          r2 = (if length largeTransactions > 5 then r1 + 1 else r1);
          r3 = (if length (tm_uniqueContracts metrics) > 20 then r2 + 1 else r2);
          avgGasUsed = fdiv (parseFloat (tm_totalGasUsed metrics)) (of_nat (max n 1));
          r4 = (if avgGasUsed > 200000 then r3 + 1 else r3);
          failedTxs = filter (\<lambda>tx. \<not> wt_status tx) transactions;
          r5 = (if of_nat (length failedTxs) > fmul (of_nat n) (toDouble (1 / 10))
                then r4 + 1 else r4);
          zeroValueContractCalls =
            filter (\<lambda>tx. wt_type tx = 2 \<and> parseFloat (wt_value tx) = 0) transactions;
          r6 = (if of_nat (length zeroValueContractCalls) > fmul (of_nat n) (toDouble (1 / 2))
                then r5 + 1 else r5)
      in r6)"

definition calculateRiskScore :: "WalletTransaction list \<Rightarrow> TransactionMetrics \<Rightarrow> nat" where
  "calculateRiskScore transactions metrics = min (riskScoreBeforeCap transactions metrics) 10"

text \<open>\<open>detectAlerts\<close>. \<open>Math.pow(10, 21)\<close> and \<open>Math.pow(10, 18)\<close> are the numbers \<open>10^21\<close> and
  \<open>10^18\<close>, which are doubles; the change of the portfolio value is computed with the
  operations on numbers.\<close>

definition detectAlerts ::
  "WalletTransaction list \<Rightarrow> TransactionMetrics \<Rightarrow> rat \<Rightarrow> WalletSnapshot option \<Rightarrow> Alert list" where
  "detectAlerts transactions metrics portfolioValue previousSnapshot =
     (let largeTransactions = filter (\<lambda>tx. parseFloat (wt_value tx) > 10 ^ 21) transactions;
          a1 = (if length largeTransactions > 0
                then [\<lparr> al_type = ''LARGE_TRANSACTION'', al_severity = HIGH \<rparr>] else []);
          a2 = (if parseFloat (tm_totalGasUsed metrics) > 10 ^ 18
                then [\<lparr> al_type = ''HIGH_GAS_USAGE'', al_severity = MEDIUM \<rparr>] else []);
          a3 = (if length (tm_uniqueContracts metrics) > 10
                then [\<lparr> al_type = ''MULTIPLE_CONTRACT_INTERACTIONS'', al_severity = MEDIUM \<rparr>]
                else []);
          a4 = (case previousSnapshot of
                  None \<Rightarrow> []
                | Some p \<Rightarrow>
                    (let previousValue = ws_portfolioTotal p;
                         changePercent =
                           fmul (fdiv (fsub portfolioValue previousValue) (max previousValue 1))
                             100
                     in if \<bar>changePercent\<bar> > 20
                        then [\<lparr> al_type = ''PORTFOLIO_VALUE_CHANGE'',
                                 al_severity = (if changePercent < 0 then HIGH else MEDIUM) \<rparr>]
                        else []));
          suspiciousPatterns =
            filter (\<lambda>tx. wt_actionType tx = ''Execute'' \<and> parseFloat (wt_value tx) = 0
                      \<and> (case wt_data tx of None \<Rightarrow> False
                          | Some d \<Rightarrow> truthy d \<and> length d > 200)) transactions;
          a5 = (if length suspiciousPatterns > 10
                then [\<lparr> al_type = ''SUSPICIOUS_ACTIVITY'', al_severity = HIGH \<rparr>] else [])
      in a1 @ a2 @ a3 @ a4 @ a5)"

text \<open>What one wallet cycle reads from outside: the account lookup (failed with status 404,
  failed otherwise, or a body with its \<open>address\<close> and \<open>balance\<close> members), the two holdings
  pages (\<open>None\<close> when either request throws), the three transaction endpoints in the order
  the source tries them, the portfolio value, and the verdict of the schema library on the
  string \<open>"N/A"\<close> stored on an array path (the library is not part of the repository).\<close>

datatype walletInfoResponse = InfoNotFound | InfoFailed | InfoOk string string

record wallet_env =
  we_walletInfo :: walletInfoResponse
  we_tokens :: "(Erc20Token list \<times> Erc721Token list) option"
  we_txAccounts :: "WalletTransaction response"
  we_txEvm :: "WalletTransaction response"
  we_txContracts :: "WalletTransaction response"
  we_portfolioTotal :: rat
  we_schemaAcceptsNA :: bool

text \<open>The nested \<open>try\<close> blocks around the three transaction requests: the first request that
  does not throw decides (\<open>txRes.data.items || []\<close>); when all three throw, \<open>transactions\<close>
  is \<open>"N/A"\<close>.\<close>

definition fetchWalletTransactions :: "wallet_env \<Rightarrow> WalletTransaction list option" where
  "fetchWalletTransactions env =
     (case we_txAccounts env of
        Body items _ \<Rightarrow> Some (case items of Some xs \<Rightarrow> xs | None \<Rightarrow> [])
      | RequestFailed \<Rightarrow>
          (case we_txEvm env of
             Body items _ \<Rightarrow> Some (case items of Some xs \<Rightarrow> xs | None \<Rightarrow> [])
           | RequestFailed \<Rightarrow>
               (case we_txContracts env of
                  Body items _ \<Rightarrow> Some (case items of Some xs \<Rightarrow> xs | None \<Rightarrow> [])
                | RequestFailed \<Rightarrow> None)))"

text \<open>\<open>WalletSnapshot.findOne({walletAddress, network}).sort({timestamp: -1})\<close>; the schema
  lower-cases \<open>walletAddress\<close> in documents and in query filters.\<close>

definition latestWalletSnapshot ::
  "WalletSnapshot list \<Rightarrow> string \<Rightarrow> string \<Rightarrow> WalletSnapshot option" where
  "latestWalletSnapshot store wallet network =
     newest ws_timestamp
       (filter (\<lambda>s. ws_walletAddress s = toLowerCase wallet \<and> ws_network s = network) store)"

text \<open>The validators of \<open>walletSnapshotSchema\<close> and of its sub-schemas (\<open>alertSchema\<close>,
  \<open>analysisMetadataSchema\<close>) that read a modelled field.\<close>

definition alertTypeEnum :: "string list" where
  "alertTypeEnum =
     [''LARGE_TRANSACTION'', ''HIGH_GAS_USAGE'', ''MULTIPLE_CONTRACT_INTERACTIONS'',
      ''PORTFOLIO_VALUE_CHANGE'', ''SUSPICIOUS_ACTIVITY'', ''NEW_TOKEN_INTERACTION'',
      ''UNUSUAL_PATTERN'']"

definition walletDataQualityEnum :: "string list" where
  "walletDataQualityEnum = [''COMPLETE'', ''LIMITED'', ''PARTIAL'', ''UNAVAILABLE'']"

definition walletSchemaValid :: "bool \<Rightarrow> WalletSnapshot \<Rightarrow> bool" where
  "walletSchemaValid acceptsNA s =
     (isValidEthereumAddress (ws_walletAddress s)
      \<and> networkEnum (ws_network s)
      \<and> truthy (ws_ethBalance s)
      \<and> (case ws_erc20Tokens s of
            None \<Rightarrow> acceptsNA
          | Some ts \<Rightarrow> list_all (\<lambda>t. truthy (e20_contractAddress t) \<and> truthy (e20_balance t)) ts)
      \<and> (case ws_erc721Tokens s of
            None \<Rightarrow> acceptsNA
          | Some ts \<Rightarrow> list_all (\<lambda>t. truthy (e721_tokenId t) \<and> truthy (e721_contractAddress t)) ts)
      \<and> 1 \<le> ws_riskScore s \<and> ws_riskScore s \<le> 10
      \<and> list_all (\<lambda>a. al_type a \<in> set alertTypeEnum) (ws_alerts s)
      \<and> ws_dataQuality s \<in> set walletDataQualityEnum)"

definition saveWalletSnapshot ::
  "bool \<Rightarrow> WalletSnapshot \<Rightarrow> WalletSnapshot list \<Rightarrow> error + WalletSnapshot list" where
  "saveWalletSnapshot acceptsNA snapshot store =
     (if walletSchemaValid acceptsNA snapshot then Inr (store @ [snapshot])
      else Inl ValidationError)"

definition createWalletSnapshot ::
  "string \<Rightarrow> string \<Rightarrow> wallet_env \<Rightarrow> int \<Rightarrow> WalletSnapshot list
    \<Rightarrow> error + (WalletSnapshot \<times> WalletSnapshot list)" where
  "createWalletSnapshot wallet network env now store =
     (case getNetworkConfig network of
        Inl e \<Rightarrow> Inl e
      | Inr _ \<Rightarrow>
         (if \<not> isValidEthereumAddress wallet then Inl InvalidAddressFormat
          else
            (case we_walletInfo env of
               InfoNotFound \<Rightarrow> Inl WalletNotFound
             | InfoFailed \<Rightarrow> Inl UpstreamError
             | InfoOk address balance \<Rightarrow>
                (if \<not> truthy address \<or> toLowerCase address \<noteq> toLowerCase wallet
                 then Inl InvalidWalletAddress
                 else
                   (let ethBalance = (if truthy balance then balance else ''0'');
                        erc20Tokens = map_option fst (we_tokens env);
                        erc721Tokens = map_option snd (we_tokens env);
                        transactions = fetchWalletTransactions env;
                        transactionMetrics = computeMetrics wallet transactions;
                        previousSnapshot = latestWalletSnapshot store wallet network;
                        finalMetrics = mergeWithPrevious transactionMetrics previousSnapshot;
                        txs = (case transactions of None \<Rightarrow> [] | Some xs \<Rightarrow> xs);
                        riskScore = calculateRiskScore txs finalMetrics;
                        alerts =
                          detectAlerts txs finalMetrics (we_portfolioTotal env) previousSnapshot;
                        snapshot =
                          \<lparr> ws_walletAddress = toLowerCase wallet,
                            ws_network = network,
                            ws_timestamp = now,
                            ws_ethBalance = ethBalance,
                            ws_erc20Tokens = erc20Tokens,
                            ws_erc721Tokens = erc721Tokens,
                            ws_transactionsAnalyzed =
                              (case transactions of None \<Rightarrow> - 1 | Some xs \<Rightarrow> int (length xs)),
                            ws_transactionMetrics = finalMetrics,
                            ws_portfolioTotal = we_portfolioTotal env,
                            ws_riskScore = riskScore,
                            ws_alerts = alerts,
                            ws_apiEndpointsUsed =
                              (case transactions of
                                 None \<Rightarrow> [''contract-balance-only'']
                               | Some _ \<Rightarrow> [''contract-balance'', ''transactions'']),
                            ws_dataQuality =
                              (case transactions of
                                 None \<Rightarrow> ''SERVICE_UNAVAILABLE''
                               | Some xs \<Rightarrow> (if length xs > 0 then ''COMPLETE'' else ''LIMITED'')) \<rparr>
                    in (case saveWalletSnapshot (we_schemaAcceptsNA env) snapshot store of
                          Inl e \<Rightarrow> Inl e
                        | Inr store' \<Rightarrow> Inr (snapshot, store')))))))"

section \<open>Job store, delay queue, submission route and worker\<close>

text \<open>A JavaScript number that may be \<open>NaN\<close> (\<open>undefined * 60 * 1000\<close>).\<close>

datatype jsnum = Num int | NaN

definition times_60_1000 :: "int option \<Rightarrow> jsnum" where
  "times_60_1000 intervalMinutes =
     (case intervalMinutes of None \<Rightarrow> NaN | Some m \<Rightarrow> Num (m * 60 * 1000))"

datatype status = Pending | Running | Completed | Failed

text \<open>The members of \<open>payload\<close> that the modelled analyzers read: \<open>payload.wallet\<close>,
  \<open>payload.tokenAddress\<close> and \<open>payload.options?.largeTransfer\<close>.\<close>

record payload =
  pl_wallet :: "string option"
  pl_tokenAddress :: "string option"
  pl_largeTransfer :: "int option"

record LogEntry =
  lg_level :: string
  lg_message :: string

text \<open>A document of \<open>models/Job\<close>. The captured console lines (\<open>serviceLogs\<close>) are left
  out.\<close>

record Job =
  jb_id :: nat
  jb_action :: string
  jb_payload :: payload
  jb_network :: string
  jb_type :: string
  jb_scheduledAt :: "int option"
  jb_intervalMinutes :: "int option"
  jb_status :: status
  jb_lastRunAt :: "int option"
  jb_nextRunAt :: "jsnum option"
  jb_logs :: "LogEntry list"
  jb_error :: "error option"

text \<open>The data of a queue item, and the item with its options \<open>delay\<close> and
  \<open>repeat.every\<close>.\<close>

record jobData =
  jd_jobId :: nat
  jd_action :: string
  jd_payload :: payload
  jd_network :: "string option"
  jd_type :: string
  jd_scheduledAt :: "int option"
  jd_intervalMinutes :: "int option"

record queueEntry =
  qe_data :: jobData
  qe_delay :: "jsnum option"
  qe_repeatEvery :: "jsnum option"

text \<open>The state: the Job collection, the queue of the broker, the number of further
  \<open>jobQueue.add\<close> calls that the broker will still accept (\<open>None\<close>: it stays reachable), and
  the three snapshot collections.\<close>

record world =
  w_jobs :: "Job list"
  w_queue :: "queueEntry list"
  w_brokerBudget :: "nat option"
  w_wallets :: "WalletSnapshot list"
  w_tokens :: "MemeCoinSnapshot list"
  w_nfts :: "NFTSnapshot list"

definition jobQueue_add :: "queueEntry \<Rightarrow> world \<Rightarrow> error + world" where
  "jobQueue_add entry w =
     (case w_brokerBudget w of
        None \<Rightarrow> Inr (w \<lparr> w_queue := w_queue w @ [entry] \<rparr>)
      | Some 0 \<Rightarrow> Inl BrokerUnreachable
      | Some (Suc k) \<Rightarrow> Inr (w \<lparr> w_queue := w_queue w @ [entry], w_brokerBudget := Some k \<rparr>))"

definition findByIdAndUpdate :: "nat \<Rightarrow> (Job \<Rightarrow> Job) \<Rightarrow> world \<Rightarrow> world" where
  "findByIdAndUpdate jobId f w =
     w \<lparr> w_jobs := map (\<lambda>j. if jb_id j = jobId then f j else j) (w_jobs w) \<rparr>"

definition push_log :: "string \<Rightarrow> string \<Rightarrow> Job \<Rightarrow> Job" where
  "push_log level message j =
     j \<lparr> jb_logs := jb_logs j @ [\<lparr> lg_level = level, lg_message = message \<rparr>] \<rparr>"

subsection \<open>\<open>POST /jobs\<close> (\<open>routes/job\<close>)\<close>

record request =
  rq_action :: "string option"
  rq_payload :: "payload option"
  rq_type :: "string option"
  rq_scheduledAt :: "int option"
  rq_intervalMinutes :: "int option"
  rq_network :: "string option"

text \<open>The reply: the HTTP status and, on success, the created Job.\<close>

datatype reply = Reply nat "Job option"

definition fresh_id :: "Job list \<Rightarrow> nat" where
  "fresh_id jobs = Suc (foldl max 0 (map jb_id jobs))"

text \<open>\<open>JobModel.create\<close>: the validators of \<open>jobSchema\<close> (\<open>action\<close>, \<open>payload\<close>, \<open>network\<close> and
  \<open>type\<close> are required; \<open>network\<close> and \<open>type\<close> have an enum; \<open>action\<close> has none), then the
  insertion.\<close>

definition JobModel_create ::
  "request \<Rightarrow> string \<Rightarrow> world \<Rightarrow> error + (Job \<times> world)" where
  "JobModel_create req network w =
     (case (rq_action req, rq_payload req, rq_type req) of
        (Some action, Some pl, Some ty) \<Rightarrow>
          (if truthy action \<and> networkEnum network \<and> ty \<in> set [''scheduled'', ''retry'']
           then
             (let job =
                    \<lparr> jb_id = fresh_id (w_jobs w),
                      jb_action = action,
                      jb_payload = pl,
                      jb_network = network,
                      jb_type = ty,
                      jb_scheduledAt = rq_scheduledAt req,
                      jb_intervalMinutes =
                        (case rq_intervalMinutes req of
                           None \<Rightarrow> None
                         | Some m \<Rightarrow> (if m = 0 then None else Some m)),
                      jb_status = Pending,
                      jb_lastRunAt = None,
                      jb_nextRunAt = None,
                      jb_logs = [],
                      jb_error = None \<rparr>
              in Inr (job, w \<lparr> w_jobs := w_jobs w @ [job] \<rparr>))
           else Inl ValidationError)
      | _ \<Rightarrow> Inl ValidationError)"

text \<open>The handler of \<open>fastify.post("/jobs", ...)\<close>. An exception that leaves the handler is
  answered with status 500 by the framework.\<close>

definition jobRoutes_post :: "request \<Rightarrow> int \<Rightarrow> world \<Rightarrow> reply \<times> world" where
  "jobRoutes_post req now w =
     (let network = (case rq_network req of None \<Rightarrow> DEFAULT_NETWORK | Some n \<Rightarrow> n)
      in if \<not> isValidNetwork network then (Reply 400 None, w)
         else if rq_type req = Some ''scheduled'' \<and> rq_scheduledAt req = None
         then (Reply 400 None, w)
         else if rq_type req = Some ''retry''
                 \<and> (rq_intervalMinutes req = None \<or> rq_intervalMinutes req = Some 0)
         then (Reply 400 None, w)
         else
           (case JobModel_create req network w of
              Inl e \<Rightarrow> (Reply 500 None, w)
            | Inr (job, w1) \<Rightarrow>
               (let jobData =
                      \<lparr> jd_jobId = jb_id job,
                        jd_action = jb_action job,
                        jd_payload = jb_payload job,
                        jd_network = Some network,
                        jd_type = jb_type job,
                        jd_scheduledAt = rq_scheduledAt req,
                        jd_intervalMinutes = jb_intervalMinutes job \<rparr>
                in if jb_type job = ''scheduled''
                   then
                     (let delay = (case rq_scheduledAt req of
                                     None \<Rightarrow> NaN
                                   | Some t \<Rightarrow> Num (max (t - now) 0))
                      in (case jobQueue_add
                                 \<lparr> qe_data = jobData, qe_delay = Some delay,
                                   qe_repeatEvery = None \<rparr> w1 of
                            Inl e \<Rightarrow> (Reply 500 None, w1)
                          | Inr w2 \<Rightarrow> (Reply 200 (Some job), w2)))
                   else if jb_type job = ''retry''
                   then
                     (case jobQueue_add
                             \<lparr> qe_data = jobData, qe_delay = None, qe_repeatEvery = None \<rparr> w1 of
                        Inl e \<Rightarrow> (Reply 500 None, w1)
                      | Inr w2 \<Rightarrow>
                         (let intervalMs = times_60_1000 (rq_intervalMinutes req)
                          in (case jobQueue_add
                                     \<lparr> qe_data = jobData, qe_delay = Some intervalMs,
                                       qe_repeatEvery = Some intervalMs \<rparr> w2 of
                                Inl e \<Rightarrow> (Reply 500 None, w2)
                              | Inr w3 \<Rightarrow> (Reply 200 (Some job), w3))))
                   else (Reply 200 (Some job), w1))))"

subsection \<open>The worker (\<open>queue/workers\<close>)\<close>

text \<open>What the upstream explorer answers during one cycle, for each analyzer.\<close>

record upstream =
  up_wallet :: wallet_env
  up_token :: "token_endpoint \<Rightarrow> Transaction response"
  up_nft :: "NFTTransaction response"

text \<open>An absent address reaches the regular expression as the text \<open>undefined\<close>.\<close>

definition or_undefined :: "string option \<Rightarrow> string" where
  "or_undefined a = (case a of None \<Rightarrow> ''undefined'' | Some x \<Rightarrow> x)"

text \<open>\<open>runTask(action, payload, {network})\<close>: the \<open>switch\<close> on the action. The wallet analyzer
  is called without a network and so runs on \<open>DEFAULT_NETWORK\<close>.\<close>

definition runTask ::
  "string \<Rightarrow> payload \<Rightarrow> string option \<Rightarrow> upstream \<Rightarrow> int \<Rightarrow> world \<Rightarrow> error + world" where
  "runTask action pl network up now w =
     (let net = (case network of None \<Rightarrow> ''testnet''
                 | Some n \<Rightarrow> (if truthy n then n else ''testnet''))
      in if action = ''wallet_snapshot''
         then
           (case createWalletSnapshot (or_undefined (pl_wallet pl)) DEFAULT_NETWORK
                   (up_wallet up) now (w_wallets w) of
              Inl e \<Rightarrow> Inl e
            | Inr (snapshot, store') \<Rightarrow> Inr (w \<lparr> w_wallets := store' \<rparr>))
         else if action = ''analyze_coin_flows''
         then
           (case analyzeCoinFlows
                   \<lparr> tc_address = or_undefined (pl_tokenAddress pl),
                     tc_largeTransfer =
                       (case pl_largeTransfer pl of
                          None \<Rightarrow> 1000000
                        | Some v \<Rightarrow> (if v = 0 then 1000000 else v)) \<rparr>
                   net (up_token up) now (w_tokens w) of
              Inl e \<Rightarrow> Inl e
            | Inr (result, store') \<Rightarrow> Inr (w \<lparr> w_tokens := store' \<rparr>))
         else if action = ''analyze_nft_movements''
         then
           (case analyzeNFTMovements \<lparr> nc_address = or_undefined (pl_tokenAddress pl) \<rparr>
                   net (up_nft up) now (w_nfts w) of
              Inl e \<Rightarrow> Inl e
            | Inr (result, store') \<Rightarrow> Inr (w \<lparr> w_nfts := store' \<rparr>))
         else Inl UnknownActionType)"

text \<open>The \<open>catch\<close> block of the handler.\<close>

definition job_failed :: "nat \<Rightarrow> error \<Rightarrow> world \<Rightarrow> world" where
  "job_failed jobId err w =
     findByIdAndUpdate jobId
       (\<lambda>j. push_log ''ERROR'' ''Job execution failed''
               (j \<lparr> jb_status := Failed, jb_error := Some err \<rparr>)) w"

text \<open>The handler that the \<open>Worker\<close> runs on the data of a dispatched queue item.\<close>

definition jobWorker :: "jobData \<Rightarrow> upstream \<Rightarrow> int \<Rightarrow> world \<Rightarrow> world" where
  "jobWorker d up now w =
     (let jobId = jd_jobId d;
          w1 = findByIdAndUpdate jobId
                 (\<lambda>j. push_log ''INFO'' ''Job execution started'' (j \<lparr> jb_status := Running \<rparr>)) w
      in if jd_type d = ''scheduled''
         then
           (if (case jd_scheduledAt d of None \<Rightarrow> False | Some t \<Rightarrow> t > now)
            then findByIdAndUpdate jobId
                   (push_log ''WARN'' ''Scheduled time not reached yet, skipping job'') w1
            else
              (case runTask (jd_action d) (jd_payload d) (jd_network d) up now w1 of
                 Inl err \<Rightarrow> job_failed jobId err w1
               | Inr w2 \<Rightarrow>
                   findByIdAndUpdate jobId
                     (\<lambda>j. push_log ''INFO'' ''Job completed successfully''
                             (j \<lparr> jb_status := Completed, jb_lastRunAt := Some now \<rparr>)) w2))
         else if jd_type d = ''retry''
         then
           (case runTask (jd_action d) (jd_payload d) (jd_network d) up now w1 of
              Inl err \<Rightarrow> job_failed jobId err w1
            | Inr w2 \<Rightarrow>
               (let nextRun =
                      (case times_60_1000 (jd_intervalMinutes d) of
                         NaN \<Rightarrow> NaN | Num ms \<Rightarrow> Num (now + ms));
                    w3 = findByIdAndUpdate jobId
                           (\<lambda>j. push_log ''INFO'' ''Recurring job completed, scheduling next run''
                                   (j \<lparr> jb_lastRunAt := Some now, jb_nextRunAt := Some nextRun \<rparr>))
                           w2
                in (case jobQueue_add
                           \<lparr> qe_data = d \<lparr> jd_network := None, jd_scheduledAt := None \<rparr>,
                             qe_delay = Some (times_60_1000 (jd_intervalMinutes d)),
                             qe_repeatEvery = None \<rparr> w3 of
                      Inl err \<Rightarrow> job_failed jobId err w3
                    | Inr w4 \<Rightarrow> w4)))
         else findByIdAndUpdate jobId (push_log ''WARN'' ''Unknown job type encountered'') w1)"

section \<open>The risk score as the specification describes it\<close>


section \<open>Concrete inputs\<close>

definition ex_address :: string where
  "ex_address = ''0x00000000000000000000000000000000000000aa''"

definition ex_tokenInfo :: TokenInfo where
  "ex_tokenInfo = \<lparr> ti_hash = ex_address, ti_name = ''Astro'', ti_symbol = ''ASTRO'' \<rparr>"

definition ex_tx1 :: Transaction where
  "ex_tx1 = \<lparr> tx_timestamp = 1000, tx_from = ''0xA1'', tx_to = ''0xb2'', tx_value = 5,
              tx_txHash = ''h1'', tx_status = True, tx_token = Some ex_tokenInfo \<rparr>"


definition ex_tokenConfig :: TokenConfig where
  "ex_tokenConfig = \<lparr> tc_address = ex_address, tc_largeTransfer = 1000000 \<rparr>"

text \<open>An upstream whose first endpoint delivers the given page.\<close>

definition ex_page :: "Transaction list \<Rightarrow> token_endpoint \<Rightarrow> Transaction response" where
  "ex_page items e = (case e of Erc20Transfers \<Rightarrow> Body (Some items) None | _ \<Rightarrow> RequestFailed)"

text \<open>The snapshot that the first token cycle (page \<open>[ex_tx1]\<close>, instant 2000) writes, and the
  one that the second cycle (page \<open>[ex_tx2, ex_tx1]\<close>, instant 3000) writes.\<close>

definition ex_tokenSnapshot1 :: MemeCoinSnapshot where
  "ex_tokenSnapshot1 =
     \<lparr> mc_tokenAddress = ex_address, mc_network = ''testnet'', mc_tokenInfo = ex_tokenInfo,
       mc_timestamp = 2000,
       mc_flowMetrics =
         \<lparr> fm_totalTransfers = 1, fm_totalVolume = 5, fm_uniqueAddresses = [''0xa1'', ''0xb2''],
           fm_largeTransfers = [], fm_burnTransactions = [],
           fm_last1h = 5, fm_last6h = 5, fm_last24h = 5, fm_transferFrequency = 1,
           fm_processedTransactionHashes = [''h1''] \<rparr>,
       mc_transactionsAnalyzed = 1, mc_newTransactionsThisBatch = 1,
       mc_cumulativeTransactions = 1, mc_dataQuality = ''LIMITED'' \<rparr>"


definition ex_nftInfo :: NFTTokenInfo where
  "ex_nftInfo = \<lparr> ni_hash = ex_address, ni_name = ''Dongle'', ni_symbol = ''DONGLE'',
                   ni_totalSupply = ''100'' \<rparr>"

definition ex_ntx1 :: NFTTransaction where
  "ex_ntx1 = \<lparr> nx_timestamp = 1000, nx_from = ''0xA1'', nx_to = ''0xb2'', nx_tokenItemId = ''7'',
               nx_txHash = ''n1'', nx_status = True, nx_fee = 3, nx_token = Some ex_nftInfo \<rparr>"

definition ex_nftConfig :: NFTConfig where
  "ex_nftConfig = \<lparr> nc_address = ex_address \<rparr>"

text \<open>The snapshot that the first NFT cycle (page \<open>[ex_ntx1]\<close>, instant 2000) writes.\<close>

definition ex_nftSnapshot1 :: NFTSnapshot where
  "ex_nftSnapshot1 =
     \<lparr> ns_tokenAddress = ex_address, ns_network = ''testnet'', ns_tokenInfo = ex_nftInfo,
       ns_timestamp = 2000,
       ns_movementMetrics =
         \<lparr> nm_totalTransfers = 1, nm_uniqueHolders = [''0xa1'', ''0xb2''],
           nm_currentHolders = [(''7'', Owner ''0xb2'')],
           nm_transferHistory =
             [\<lparr> th_tokenId = ''7'', th_from = ''0xA1'', th_to = ''0xb2'', th_txHash = ''n1'',
                th_timestamp = 1000, th_fee = 3 \<rparr>],
           nm_mintTransactions = [], nm_burnTransactions = [],
           nm_last1h = 1, nm_last6h = 1, nm_last24h = 1,
           nm_transferFrequency = 1, nm_flippingActivity = 1, nm_totalFeesGenerated = 3,
           nm_processedTransactionHashes = [''n1''] \<rparr>,
       ns_transactionsAnalyzed = 1, ns_newTransactionsThisBatch = 1,
       ns_cumulativeTransactions = 1, ns_dataQuality = ''LIMITED'' \<rparr>"


definition ex_walletEnv :: "WalletTransaction response \<Rightarrow> wallet_env" where
  "ex_walletEnv r =
     \<lparr> we_walletInfo = InfoOk ex_address ''19915909339600245000'',
       we_tokens = Some ([], []),
       we_txAccounts = r, we_txEvm = r, we_txContracts = r,
       we_portfolioTotal = 6, we_schemaAcceptsNA = True \<rparr>"

text \<open>The snapshot of a wallet cycle on the page \<open>items\<close>, for the two pages used below: the
  empty page and the page \<open>[ex_wtx]\<close>.\<close>

definition ex_walletSnapshotEmpty :: "int \<Rightarrow> WalletSnapshot" where
  "ex_walletSnapshotEmpty now =
     \<lparr> ws_walletAddress = ex_address, ws_network = ''testnet'', ws_timestamp = now,
       ws_ethBalance = ''19915909339600245000'', ws_erc20Tokens = Some [],
       ws_erc721Tokens = Some [], ws_transactionsAnalyzed = 0,
       ws_transactionMetrics = emptyMetrics,
       ws_portfolioTotal = 6, ws_riskScore = 1, ws_alerts = [],
       ws_apiEndpointsUsed = [''contract-balance'', ''transactions''],
       ws_dataQuality = ''LIMITED'' \<rparr>"


text \<open>Job submissions: a payload, a request for an action and a type, the empty state with a
  given broker budget, the retry job that a submission of \<open>analyze_coin_flows\<close> creates with
  its two queue items, and the answers of the upstream during one cycle.\<close>

definition ex_payload :: payload where
  "ex_payload = \<lparr> pl_wallet = None, pl_tokenAddress = Some ex_address, pl_largeTransfer = None \<rparr>"

definition ex_request :: "string \<Rightarrow> string \<Rightarrow> request" where
  "ex_request action ty =
     \<lparr> rq_action = Some action, rq_payload = Some ex_payload, rq_type = Some ty,
       rq_scheduledAt = (if ty = ''scheduled'' then Some 60000 else None),
       rq_intervalMinutes = (if ty = ''retry'' then Some 15 else None),
       rq_network = None \<rparr>"

definition ex_world :: "nat option \<Rightarrow> world" where
  "ex_world budget =
     \<lparr> w_jobs = [], w_queue = [], w_brokerBudget = budget,
       w_wallets = [], w_tokens = [], w_nfts = [] \<rparr>"

definition ex_job :: "string \<Rightarrow> string \<Rightarrow> Job" where
  "ex_job action ty =
     \<lparr> jb_id = 1, jb_action = action, jb_payload = ex_payload, jb_network = ''testnet'',
       jb_type = ty,
       jb_scheduledAt = (if ty = ''scheduled'' then Some 60000 else None),
       jb_intervalMinutes = (if ty = ''retry'' then Some 15 else None),
       jb_status = Pending, jb_lastRunAt = None, jb_nextRunAt = None, jb_logs = [],
       jb_error = None \<rparr>"

definition ex_retryData :: jobData where
  "ex_retryData =
     \<lparr> jd_jobId = 1, jd_action = ''analyze_coin_flows'', jd_payload = ex_payload,
       jd_network = Some ''testnet'', jd_type = ''retry'', jd_scheduledAt = None,
       jd_intervalMinutes = Some 15 \<rparr>"

definition ex_immediateEntry :: queueEntry where
  "ex_immediateEntry = \<lparr> qe_data = ex_retryData, qe_delay = None, qe_repeatEvery = None \<rparr>"

definition ex_repeatEntry :: queueEntry where
  "ex_repeatEntry =
     \<lparr> qe_data = ex_retryData, qe_delay = Some (Num 900000), qe_repeatEvery = Some (Num 900000) \<rparr>"

definition ex_delayedEntry :: queueEntry where
  "ex_delayedEntry =
     \<lparr> qe_data = ex_retryData \<lparr> jd_network := None, jd_scheduledAt := None \<rparr>,
       qe_delay = Some (Num 900000), qe_repeatEvery = None \<rparr>"

definition ex_submitted :: world where
  "ex_submitted =
     \<lparr> w_jobs = [ex_job ''analyze_coin_flows'' ''retry''],
       w_queue = [ex_immediateEntry, ex_repeatEntry], w_brokerBudget = None,
       w_wallets = [], w_tokens = [], w_nfts = [] \<rparr>"

definition ex_upstream :: "(token_endpoint \<Rightarrow> Transaction response) \<Rightarrow> upstream" where
  "ex_upstream tokenPages =
     \<lparr> up_wallet = ex_walletEnv (Body (Some []) None),
       up_token = tokenPages,
       up_nft = Body (Some [ex_ntx1]) None \<rparr>"

section \<open>Facts about the rounding of numbers\<close>

text \<open>The exponent that \<open>ilog2\<close> finds, the monotonicity of \<open>toDouble\<close>, the numbers that it
  leaves unchanged, and the exact meaning of the comparisons that the wallet analyzer makes
  on rounded numbers.\<close>

lemma bitlen_pos: "0 < n \<Longrightarrow> 0 < bitlen n"
proof (induction n rule: bitlen.induct)
  case (1 n)
  have b: "bitlen n = 1 + bitlen (n div 2)" using 1(2) by (subst bitlen.simps) simp
  have "0 \<le> bitlen (n div 2)"
  proof (cases "0 < n div 2")
    case True
    then show ?thesis using 1(1) 1(2) by simp
  next
    case False
    then show ?thesis by (subst bitlen.simps) simp
  qed
  then show ?case unfolding b by simp
qed

lemma bitlen_bounds:
  "0 < n \<Longrightarrow> 2 ^ nat (bitlen n - 1) \<le> n \<and> n < 2 ^ nat (bitlen n)"
proof (induction n rule: bitlen.induct)
  case (1 n)
  have b: "bitlen n = 1 + bitlen (n div 2)" using 1(2) by (subst bitlen.simps) simp
  show ?case
  proof (cases "0 < n div 2")
    case False
    then have n1: "n = 1" using 1(2) by linarith
    have "bitlen (1 div 2) = 0" by (subst bitlen.simps) simp
    then have "bitlen 1 = 1" by (subst bitlen.simps) simp
    then show ?thesis unfolding n1 by simp
  next
    case True
    define m where "m = n div 2"
    define c where "c = bitlen m"
    from 1(1) 1(2) True
    have ih: "2 ^ nat (c - 1) \<le> m" "m < 2 ^ nat c"
      by (simp_all add: m_def c_def)
    have cp: "0 < c" using bitlen_pos[OF True] by (simp add: c_def m_def)
    have bc: "bitlen n = c + 1" using b by (simp add: c_def m_def)
    have lo: "2 * m \<le> n" and hi: "n \<le> 2 * m + 1" unfolding m_def by presburger+
    have "nat c = Suc (nat (c - 1))" using cp by simp
    then have e1: "(2::int) ^ nat c = 2 * 2 ^ nat (c - 1)" by (simp only: power_Suc)
    have e2: "(2::int) ^ nat (c + 1) = 2 * 2 ^ nat c"
      using cp by (simp add: nat_add_distrib)
    show ?thesis unfolding bc using ih lo hi e1 e2 by simp
  qed
qed


lemma rat_of_int_ge_pow2: "2 ^ a \<le> (n::int) \<Longrightarrow> (2::rat) ^ a \<le> of_int n"
proof -
  assume "2 ^ a \<le> n"
  then have "(of_int (2 ^ a) :: rat) \<le> of_int n" by (simp only: of_int_le_iff)
  then show ?thesis by simp
qed

lemma rat_of_int_le_pow2: "(n::int) \<le> 2 ^ b \<Longrightarrow> (of_int n :: rat) \<le> 2 ^ b"
proof -
  assume "n \<le> 2 ^ b"
  then have "(of_int n :: rat) \<le> of_int (2 ^ b)" by (simp only: of_int_le_iff)
  then show ?thesis by simp
qed

lemma int_ge_pow2_of_rat: "(2::rat) ^ a \<le> of_int n \<Longrightarrow> 2 ^ a \<le> (n::int)"
proof -
  assume "(2::rat) ^ a \<le> of_int n"
  then have "(of_int (2 ^ a) :: rat) \<le> of_int n" by simp
  then show ?thesis by (simp only: of_int_le_iff)
qed

lemma powi2_less_imp: "(2::rat) powi a < 2 powi b \<Longrightarrow> a < b"
proof (rule ccontr)
  assume l: "(2::rat) powi a < 2 powi b" and "\<not> a < b"
  then have "b \<le> a" by simp
  then have "(2::rat) powi b \<le> 2 powi a" by (rule power_int_increasing) simp
  then show False using l by linarith
qed

lemma ilog2_bounds:
  assumes "0 < x"
  shows "2 powi (ilog2 x) \<le> x" and "x < 2 powi (ilog2 x + 1)"
proof -
  have "2 powi (ilog2 x) \<le> x \<and> x < 2 powi (ilog2 x + 1)"
  proof (cases "1 \<le> x")
    case True
    define n where "n = \<lfloor>x\<rfloor>"
    define b where "b = bitlen n"
    have n1: "0 < n" using True by (simp add: n_def)
    have bp: "0 < b" using bitlen_pos[OF n1] by (simp add: b_def)
    have i: "ilog2 x = int (nat (b - 1))" using True bp by (simp add: ilog2_def n_def b_def)
    have i1: "ilog2 x + 1 = int (nat b)" using i bp by simp
    have nx: "(of_int n :: rat) \<le> x" by (simp add: n_def)
    have xn: "x < of_int n + 1" by (simp add: n_def) linarith
    from bitlen_bounds[OF n1] have lo: "2 ^ nat (b - 1) \<le> n" and hi: "n < 2 ^ nat b"
      by (simp_all add: b_def)
    have lo': "(2::rat) ^ nat (b - 1) \<le> of_int n"
      using lo by (rule rat_of_int_ge_pow2)
    have "n + 1 \<le> 2 ^ nat b" using hi by simp
    then have hi': "(of_int n :: rat) + 1 \<le> 2 ^ nat b"
      using rat_of_int_le_pow2[of "n + 1" "nat b"] by simp
    have e1: "(2::rat) powi (ilog2 x) = 2 ^ nat (b - 1)" by (simp only: i power_int_of_nat)
    have e2: "(2::rat) powi (ilog2 x + 1) = 2 ^ nat b" by (simp only: i1 power_int_of_nat)
    show ?thesis unfolding e1 e2 using lo' nx xn hi' by linarith
  next
    case False
    define y where "y = 1 / x"
    define m where "m = \<lceil>y\<rceil>"
    define n where "n = m - 1"
    define b where "b = bitlen n"
    have y1: "1 < y" using False assms by (simp add: y_def)
    have m2: "2 \<le> m" using y1 unfolding m_def by linarith
    have n1: "0 < n" using m2 by (simp add: n_def)
    have i: "ilog2 x = - b" using False by (simp add: ilog2_def b_def n_def m_def y_def)
    have bp: "0 < b" using bitlen_pos[OF n1] by (simp add: b_def)
    from bitlen_bounds[OF n1] have lo: "2 ^ nat (b - 1) \<le> n" and hi: "n < 2 ^ nat b"
      by (simp_all add: b_def)
    have nm: "(of_int n :: rat) = of_int m - 1" by (simp add: n_def)
    have lo': "(2::rat) ^ nat (b - 1) \<le> of_int n"
      using lo by (rule rat_of_int_ge_pow2)
    have "n + 1 \<le> 2 ^ nat b" using hi by simp
    then have hi': "(of_int n :: rat) + 1 \<le> 2 ^ nat b"
      using rat_of_int_le_pow2[of "n + 1" "nat b"] by simp
    have my: "of_int m - 1 < y" "y \<le> of_int m" unfolding m_def by linarith+
    have a: "(2::rat) ^ nat (b - 1) < y" using lo' nm my by linarith
    have c: "y \<le> 2 ^ nat b" using hi' nm my by linarith
    have "ilog2 x = - int (nat b)" using bp i by simp
    then have p1: "(2::rat) powi (ilog2 x) = 1 / 2 ^ nat b"
      by (simp only: power_int_minus_divide power_int_of_nat)
    have "ilog2 x + 1 = - int (nat (b - 1))" using bp i by simp
    then have p2: "(2::rat) powi (ilog2 x + 1) = 1 / 2 ^ nat (b - 1)"
      by (simp only: power_int_minus_divide power_int_of_nat)
    have x1: "1 / 2 ^ nat b \<le> x"
      using c assms unfolding y_def by (simp add: field_simps)
    have x2: "x < 1 / 2 ^ nat (b - 1)"
      using a assms unfolding y_def by (simp add: field_simps)
    show ?thesis unfolding p1 p2 using x1 x2 by simp
  qed
  then show "2 powi (ilog2 x) \<le> x" and "x < 2 powi (ilog2 x + 1)" by simp_all
qed

lemma ilog2_unique:
  assumes "2 powi k \<le> x" "x < 2 powi (k + 1)"
  shows "ilog2 x = k"
proof -
  have p: "0 < x" using assms(1) zero_less_power_int[of "2::rat" k] by linarith
  note b = ilog2_bounds[OF p]
  have "(2::rat) powi k < 2 powi (ilog2 x + 1)" using assms(1) b(2) by linarith
  then have 1: "k < ilog2 x + 1" by (rule powi2_less_imp)
  have "(2::rat) powi (ilog2 x) < 2 powi (k + 1)" using assms(2) b(1) by linarith
  then have 2: "ilog2 x < k + 1" by (rule powi2_less_imp)
  show ?thesis using 1 2 by simp
qed

lemma rte_of_int: "roundTiesToEven (of_int n) = n"
  by (simp add: roundTiesToEven_def)

lemma rte_floor: "\<lfloor>x\<rfloor> \<le> roundTiesToEven x" "roundTiesToEven x \<le> \<lfloor>x\<rfloor> + 1"
  by (simp_all add: roundTiesToEven_def Let_def)

lemma rte_mono:
  assumes "x \<le> y"
  shows "roundTiesToEven x \<le> roundTiesToEven y"
proof (cases "\<lfloor>x\<rfloor> = \<lfloor>y\<rfloor>")
  case True
  then show ?thesis using assms by (auto simp: roundTiesToEven_def Let_def)
next
  case False
  then have "\<lfloor>x\<rfloor> + 1 \<le> \<lfloor>y\<rfloor>" using floor_mono[OF assms] by linarith
  then show ?thesis using rte_floor(2)[of x] rte_floor(1)[of y] by linarith
qed

lemma rte_gt_even:
  assumes "even T"
  shows "T < roundTiesToEven x \<longleftrightarrow> of_int T + 1 / 2 < x"
proof -
  consider "\<lfloor>x\<rfloor> < T" | "\<lfloor>x\<rfloor> = T" | "T < \<lfloor>x\<rfloor>" by linarith
  then show ?thesis
  proof cases
    case 1
    then have a: "roundTiesToEven x \<le> T" using rte_floor(2)[of x] by linarith
    have "x < of_int T" using 1 by linarith
    then show ?thesis using a by simp
  next
    case 2
    have "x - of_int \<lfloor>x\<rfloor> = x - of_int T" using 2 by simp
    then show ?thesis using 2 assms by (auto simp: roundTiesToEven_def Let_def)
  next
    case 3
    then have a: "T < roundTiesToEven x" using rte_floor(1)[of x] by linarith
    have "of_int T + 1 \<le> x" using 3 by linarith
    then show ?thesis using a by simp
  qed
qed

lemma toDouble_minus: "toDouble (- x) = - toDouble x"
  by (simp add: toDouble_def Let_def sgn_minus)

lemma toDouble_pos_binade:
  assumes "2 powi k \<le> x" "x < 2 powi (k + 1)"
  shows "toDouble x = of_int (roundTiesToEven (x / 2 powi (k - 52))) * 2 powi (k - 52)"
proof -
  have p: "0 < x" using assms(1) zero_less_power_int[of "2::rat" k] by linarith
  have "ilog2 x = k" by (rule ilog2_unique[OF assms])
  then show ?thesis using p by (simp add: toDouble_def Let_def)
qed

lemma toDouble_binade_bounds:
  assumes "2 powi k \<le> x" "x < 2 powi (k + 1)"
  shows "2 powi k \<le> toDouble x" "toDouble x \<le> 2 powi (k + 1)"
proof -
  define s :: rat where "s = 2 powi (k - 52)"
  have sp: "0 < s" by (simp add: s_def zero_less_power_int)
  have k0: "(2::rat) powi k = 2 ^ 52 * s"
    unfolding s_def by (simp add: power_int_diff)
  have k1: "(2::rat) powi (k + 1) = 2 ^ 53 * s"
    unfolding s_def by (simp add: power_int_diff power_int_add)
  have lo: "of_int (2 ^ 52) \<le> x / s" using assms(1) sp unfolding k0 by (simp add: field_simps)
  have hi: "x / s \<le> of_int (2 ^ 53)" using assms(2) sp unfolding k1 by (simp add: field_simps)
  have a: "2 ^ 52 \<le> roundTiesToEven (x / s)"
    using rte_mono[OF lo] by (simp only: rte_of_int)
  have b: "roundTiesToEven (x / s) \<le> 2 ^ 53"
    using rte_mono[OF hi] by (simp only: rte_of_int)
  have t: "toDouble x = of_int (roundTiesToEven (x / s)) * s"
    unfolding s_def by (rule toDouble_pos_binade[OF assms])
  have a': "(2::rat) ^ 52 \<le> of_int (roundTiesToEven (x / s))"
    using a by (rule rat_of_int_ge_pow2)
  have b': "of_int (roundTiesToEven (x / s)) \<le> (2::rat) ^ 53"
    using b by (rule rat_of_int_le_pow2)
  show "2 powi k \<le> toDouble x" unfolding k0 t using a' sp by (simp add: mult_right_mono)
  show "toDouble x \<le> 2 powi (k + 1)" unfolding k1 t using b' sp by (simp add: mult_right_mono)
qed

lemma toDouble_pos: "0 < x \<Longrightarrow> 0 < toDouble x"
  using toDouble_binade_bounds(1)[OF ilog2_bounds, of x] zero_less_power_int[of "2::rat" "ilog2 x"]
  by linarith

lemma toDouble_nonneg: "0 \<le> x \<Longrightarrow> 0 \<le> toDouble x"
  using toDouble_pos[of x] by (cases "x = 0") (simp_all add: toDouble_def)

lemma toDouble_nonpos: "x \<le> 0 \<Longrightarrow> toDouble x \<le> 0"
  using toDouble_nonneg[of "- x"] by (simp add: toDouble_minus)

lemma toDouble_eq_0_iff: "toDouble x = 0 \<longleftrightarrow> x = 0"
proof
  assume z: "toDouble x = 0"
  show "x = 0"
  proof (rule ccontr)
    assume "x \<noteq> 0"
    then consider "0 < x" | "0 < - x" by linarith
    then show False
    proof cases
      case 1 then show False using toDouble_pos[of x] z by simp
    next
      case 2 then show False using toDouble_pos[of "- x"] z by (simp add: toDouble_minus)
    qed
  qed
qed (simp add: toDouble_def)

lemma toDouble_mono_pos:
  assumes "0 < x" "x \<le> y"
  shows "toDouble x \<le> toDouble y"
proof -
  have py: "0 < y" using assms by linarith
  note bx = ilog2_bounds[OF assms(1)] and by' = ilog2_bounds[OF py]
  have "(2::rat) powi (ilog2 x) < 2 powi (ilog2 y + 1)" using bx(1) by'(2) assms(2) by linarith
  then have le: "ilog2 x < ilog2 y + 1" by (rule powi2_less_imp)
  show ?thesis
  proof (cases "ilog2 x = ilog2 y")
    case True
    define s :: rat where "s = 2 powi (ilog2 y - 52)"
    have sp: "0 < s" by (simp add: s_def zero_less_power_int)
    have tx: "toDouble x = of_int (roundTiesToEven (x / s)) * s"
      unfolding s_def True[symmetric] by (rule toDouble_pos_binade[OF bx])
    have ty: "toDouble y = of_int (roundTiesToEven (y / s)) * s"
      unfolding s_def by (rule toDouble_pos_binade[OF by'])
    have "x / s \<le> y / s" using assms(2) sp by (simp add: divide_right_mono)
    from rte_mono[OF this]
    have "(of_int (roundTiesToEven (x / s)) :: rat) \<le> of_int (roundTiesToEven (y / s))" by simp
    then show ?thesis unfolding tx ty using sp by (simp add: mult_right_mono)
  next
    case False
    then have "ilog2 x + 1 \<le> ilog2 y" using le by simp
    then have "(2::rat) powi (ilog2 x + 1) \<le> 2 powi (ilog2 y)"
      by (rule power_int_increasing) simp
    then show ?thesis
      using toDouble_binade_bounds(2)[OF bx] toDouble_binade_bounds(1)[OF by'] by linarith
  qed
qed

lemma toDouble_mono:
  assumes "0 \<le> x" "x \<le> y"
  shows "toDouble x \<le> toDouble y"
proof (cases "x = 0")
  case True
  then show ?thesis using toDouble_nonneg[of y] assms by (simp add: toDouble_def)
next
  case False
  then show ?thesis using toDouble_mono_pos[of x y] assms by simp
qed

lemma toDouble_threshold:
  assumes "even T" "2 ^ 52 \<le> T" "T < 2 ^ 53"
  shows "of_int T * 2 powi e < toDouble x \<longleftrightarrow> (of_int T + 1 / 2) * 2 powi e < x"
proof -
  define s :: rat where "s = 2 powi e"
  define k where "k = e + 52"
  have sp: "0 < s" by (simp add: s_def zero_less_power_int)
  have k0: "(2::rat) powi k = 2 ^ 52 * s"
    unfolding s_def k_def by (simp add: power_int_add)
  have k1: "(2::rat) powi (k + 1) = 2 ^ 53 * s"
    unfolding s_def k_def by (simp add: power_int_add)
  have T1: "(2::rat) ^ 52 \<le> of_int T"
    using assms(2) by (rule rat_of_int_ge_pow2)
  have "T + 1 \<le> 2 ^ 53" using assms(3) by simp
  then have T2: "of_int T + 1 \<le> (2::rat) ^ 53"
    using rat_of_int_le_pow2[of "T + 1" 53] by simp
  have t0: "2 powi k \<le> of_int T * s" unfolding k0 using T1 sp by (simp add: mult_right_mono)
  have t1: "(of_int T + 1) * s \<le> 2 powi (k + 1)"
    unfolding k1 using T2 sp by (simp add: mult_right_mono)
  have h: "(of_int T + 1 / 2) * s < (of_int T + 1) * s" "of_int T * s < (of_int T + 1 / 2) * s"
    using sp by (simp_all add: mult_strict_right_mono)
  show ?thesis unfolding s_def[symmetric]
  proof (cases "0 < x")
    case False
    then have "toDouble x \<le> 0" using toDouble_nonpos[of x] by simp
    moreover have "0 < of_int T * s"
      using t0 zero_less_power_int[of "2::rat" k] by linarith
    ultimately show "of_int T * s < toDouble x \<longleftrightarrow> (of_int T + 1 / 2) * s < x"
      using False h by linarith
  next
    case True
    note bx = ilog2_bounds[OF True]
    consider "ilog2 x < k" | "ilog2 x = k" | "k < ilog2 x" by linarith
    then show "of_int T * s < toDouble x \<longleftrightarrow> (of_int T + 1 / 2) * s < x"
    proof cases
      case 1
      then have "ilog2 x + 1 \<le> k" by simp
      then have "(2::rat) powi (ilog2 x + 1) \<le> 2 powi k"
        by (rule power_int_increasing) simp
      then show ?thesis
        using toDouble_binade_bounds(2)[OF bx] bx(2) t0 h by linarith
    next
      case 2
      have ke: "k - 52 = e" by (simp add: k_def)
      have tx: "toDouble x = of_int (roundTiesToEven (x / s)) * s"
        using toDouble_pos_binade[OF bx] unfolding 2 ke s_def .
      have "of_int T * s < toDouble x \<longleftrightarrow> T < roundTiesToEven (x / s)"
        unfolding tx using sp by (simp add: mult_less_cancel_right)
      also have "\<dots> \<longleftrightarrow> of_int T + 1 / 2 < x / s" by (rule rte_gt_even[OF assms(1)])
      also have "\<dots> \<longleftrightarrow> (of_int T + 1 / 2) * s < x" using sp by (simp add: pos_less_divide_eq)
      finally show ?thesis .
    next
      case 3
      then have "k + 1 \<le> ilog2 x" by simp
      then have "(2::rat) powi (k + 1) \<le> 2 powi (ilog2 x)"
        by (rule power_int_increasing) simp
      then show ?thesis
        using toDouble_binade_bounds(1)[OF bx] bx(1) t1 h by linarith
    qed
  qed
qed

lemma toDouble_fixed_pos:
  assumes "0 < m" "m < 2 ^ 53"
  shows "toDouble (of_int m * 2 powi e) = of_int m * 2 powi e"
proof -
  define x :: rat where "x = of_int m * 2 powi e"
  have xp: "0 < x" using assms(1) by (simp add: x_def zero_less_power_int)
  define k where "k = ilog2 x"
  note bx = ilog2_bounds[OF xp, folded k_def]
  have ge: "0 \<le> e - k + 52"
  proof (rule ccontr)
    assume "\<not> 0 \<le> e - k + 52"
    then have "e + 53 \<le> k" by simp
    then have "(2::rat) powi (e + 53) \<le> 2 powi k" by (rule power_int_increasing) simp
    then have "(2::rat) powi (e + 53) \<le> of_int m * 2 powi e" using bx(1) by (simp add: x_def)
    then have "(2::rat) ^ 53 * 2 powi e \<le> of_int m * 2 powi e"
      by (simp add: power_int_add mult.commute)
    then have "(2::rat) ^ 53 \<le> of_int m"
      using zero_less_power_int[of "2::rat" e] by (simp add: mult_le_cancel_right)
    then have "2 ^ 53 \<le> m" by (rule int_ge_pow2_of_rat)
    then show False using assms(2) by simp
  qed
  define j where "j = nat (e - k + 52)"
  have je: "e = (k - 52) + int j" using ge by (simp add: j_def)
  have "x / 2 powi (k - 52) = of_int m * 2 ^ j"
    unfolding x_def by (subst je) (simp add: power_int_add power_int_of_nat)
  also have "\<dots> = of_int (m * 2 ^ j)" by simp
  finally have q: "x / 2 powi (k - 52) = of_int (m * 2 ^ j)" .
  have "toDouble x = of_int (roundTiesToEven (x / 2 powi (k - 52))) * 2 powi (k - 52)"
    by (rule toDouble_pos_binade[OF bx])
  also have "\<dots> = of_int (m * 2 ^ j) * 2 powi (k - 52)" unfolding q rte_of_int ..
  also have "\<dots> = x" using q by (simp add: field_simps)
  finally show ?thesis unfolding x_def .
qed

lemma toDouble_fixed:
  assumes "\<bar>m\<bar> < 2 ^ 53"
  shows "toDouble (of_int m * 2 powi e) = of_int m * 2 powi e"
proof -
  consider "m = 0" | "0 < m" | "0 < - m" by linarith
  then show ?thesis
  proof cases
    case 1 then show ?thesis by (simp add: toDouble_def)
  next
    case 2 then show ?thesis using toDouble_fixed_pos[of m e] assms by simp
  next
    case 3
    then have "toDouble (of_int (- m) * 2 powi e) = of_int (- m) * 2 powi e"
      using toDouble_fixed_pos[of "- m" e] assms by simp
    then show ?thesis using toDouble_minus[of "of_int m * 2 powi e"] by simp
  qed
qed


lemma parseFloat_eq_0_iff: "parseFloat v = 0 \<longleftrightarrow> v = 0"
  by (simp add: parseFloat_def toDouble_eq_0_iff)

lemma parseFloat_gt_1e20: "10 ^ 20 < parseFloat v \<longleftrightarrow> 10 ^ 20 + 8192 < v"
proof -
  have "of_int 6103515625000000 * 2 powi 14 < toDouble (of_int v)
          \<longleftrightarrow> (of_int 6103515625000000 + 1 / 2) * 2 powi 14 < (of_int v :: rat)"
    by (rule toDouble_threshold) simp_all
  moreover have "of_int 6103515625000000 * 2 powi 14 = (10::rat) ^ 20" by simp
  moreover have "(of_int 6103515625000000 + 1 / 2) * 2 powi 14 = (of_int (10 ^ 20 + 8192) :: rat)"
    by simp
  ultimately have "10 ^ 20 < parseFloat v \<longleftrightarrow> (of_int (10 ^ 20 + 8192) :: rat) < of_int v"
    by (simp only: parseFloat_def)
  then show ?thesis by (simp only: of_int_less_iff)
qed

lemma parseFloat_gt_1e21: "10 ^ 21 < parseFloat v \<longleftrightarrow> 10 ^ 21 + 65536 < v"
proof -
  have "of_int 7629394531250000 * 2 powi 17 < toDouble (of_int v)
          \<longleftrightarrow> (of_int 7629394531250000 + 1 / 2) * 2 powi 17 < (of_int v :: rat)"
    by (rule toDouble_threshold) simp_all
  moreover have "of_int 7629394531250000 * 2 powi 17 = (10::rat) ^ 21" by simp
  moreover have "(of_int 7629394531250000 + 1 / 2) * 2 powi 17 = (of_int (10 ^ 21 + 65536) :: rat)"
    by simp
  ultimately have "10 ^ 21 < parseFloat v \<longleftrightarrow> (of_int (10 ^ 21 + 65536) :: rat) < of_int v"
    by (simp only: parseFloat_def)
  then show ?thesis by (simp only: of_int_less_iff)
qed

lemma parseFloat_gt_1e18: "10 ^ 18 < parseFloat v \<longleftrightarrow> 10 ^ 18 + 64 < v"
proof -
  have "of_int 7812500000000000 * 2 powi 7 < toDouble (of_int v)
          \<longleftrightarrow> (of_int 7812500000000000 + 1 / 2) * 2 powi 7 < (of_int v :: rat)"
    by (rule toDouble_threshold) simp_all
  moreover have "of_int 7812500000000000 * 2 powi 7 = (10::rat) ^ 18" by simp
  moreover have "(of_int 7812500000000000 + 1 / 2) * 2 powi 7 = (of_int (10 ^ 18 + 64) :: rat)"
    by simp
  ultimately have "10 ^ 18 < parseFloat v \<longleftrightarrow> (of_int (10 ^ 18 + 64) :: rat) < of_int v"
    by (simp only: parseFloat_def)
  then show ?thesis by (simp only: of_int_less_iff)
qed

lemma toDouble_gt_200000: "200000 < toDouble y \<longleftrightarrow> 200000 + 1 / 2 ^ 36 < y"
proof -
  have "of_int 6871947673600000 * 2 powi (- 35) < toDouble y
          \<longleftrightarrow> (of_int 6871947673600000 + 1 / 2) * 2 powi (- 35) < y"
    by (rule toDouble_threshold) simp_all
  moreover have "of_int 6871947673600000 * 2 powi (- 35) = (200000::rat)"
    by (simp add: power_int_minus_divide)
  moreover have "(of_int 6871947673600000 + 1 / 2) * 2 powi (- 35) = (200000::rat) + 1 / 2 ^ 36"
    by (simp add: power_int_minus_divide)
  ultimately show ?thesis by simp
qed

lemma toDouble_tenth: "toDouble (1 / 10) = 3602879701896397 / 2 ^ 55"
  by code_simp

lemma toDouble_half: "toDouble (1 / 2) = 1 / 2"
  by code_simp

lemma toDouble_of_nat:
  assumes "int n < 2 ^ 53"
  shows "toDouble (of_nat n) = of_nat n"
  using toDouble_fixed[of "int n" 0] assms by simp

lemma half_rule:
  assumes "int n < 2 ^ 53"
  shows "fmul (of_nat n) (toDouble (1 / 2)) < of_nat z \<longleftrightarrow> n < 2 * z"
proof -
  have "toDouble (of_int (int n) * 2 powi (- 1)) = of_int (int n) * 2 powi (- 1)"
    by (rule toDouble_fixed) (use assms in simp)
  then have "fmul (of_nat n) (toDouble (1 / 2)) = of_nat n / 2"
    by (simp add: fmul_def toDouble_half)
  moreover have "(of_nat n / 2 :: rat) < of_nat z \<longleftrightarrow> (of_nat n :: rat) < of_nat (2 * z)"
    by (simp add: field_simps)
  ultimately show ?thesis by (simp only: of_nat_less_iff)
qed

lemma tenth_rule:
  assumes "int n < 2 ^ 32" "f \<le> n"
  shows "fmul (of_nat n) (toDouble (1 / 10)) < of_nat f \<longleftrightarrow> n < 10 * f"
proof -
  define y :: rat where "y = of_nat n * (3602879701896397 / 2 ^ 55)"
  have fy: "fmul (of_nat n) (toDouble (1 / 10)) = toDouble y"
    by (simp add: fmul_def toDouble_tenth y_def)
  have n32: "(of_nat n :: rat) < 2 ^ 32"
  proof -
    have "(of_int (int n) :: rat) < of_int (2 ^ 32)" using assms(1) by (simp only: of_int_less_iff)
    then show ?thesis by simp
  qed
  have y0: "0 \<le> y" by (simp add: y_def)
  show ?thesis unfolding fy
  proof
    assume l: "toDouble y < of_nat f"
    show "n < 10 * f"
    proof (rule ccontr)
      assume "\<not> n < 10 * f"
      then have "10 * f \<le> n" by simp
      then have "(of_nat (10 * f) :: rat) \<le> of_nat n" by (simp only: of_nat_le_iff)
      then have fy': "(of_nat f :: rat) \<le> y" by (simp add: y_def)
      have "int f < 2 ^ 53" using assms by simp
      then have "toDouble (of_nat f) = (of_nat f :: rat)" by (rule toDouble_of_nat)
      moreover have "toDouble (of_nat f) \<le> toDouble y"
        by (rule toDouble_mono[OF _ fy']) simp
      ultimately show False using l by simp
    qed
  next
    assume "n < 10 * f"
    then have "n + 1 \<le> 10 * f" by simp
    then have "(of_nat (n + 1) :: rat) \<le> of_nat (10 * f)" by (simp only: of_nat_le_iff)
    then have nf: "(of_nat n :: rat) + 1 \<le> 10 * of_nat f" by simp
    define m where "m = int f * 2 ^ 21 - 1"
    define z :: rat where "z = of_int m * 2 powi (- 21)"
    have fp: "0 < f" using \<open>n < 10 * f\<close> by simp
    have "int f < 2 ^ 32" using assms by simp
    then have "\<bar>m\<bar> < 2 ^ 53" using fp by (simp add: m_def)
    then have zf: "toDouble z = z" unfolding z_def by (rule toDouble_fixed)
    have zv: "z = of_nat f - 1 / 2 ^ 21"
      by (simp add: z_def m_def power_int_minus_divide field_simps)
    have "y \<le> z" unfolding zv y_def using nf n32 by simp
    then have "toDouble y \<le> toDouble z" by (rule toDouble_mono[OF y0])
    then have "toDouble y \<le> z" by (simp only: zf)
    moreover have "z < of_nat f" by (simp add: zv)
    ultimately show "toDouble y < of_nat f" by linarith
  qed
qed

section \<open>Facts about the analyzers\<close>










lemma getNetworkConfig_valid:
  "isValidNetwork network \<Longrightarrow> getNetworkConfig network = Inr (toLowerCase network)"
  by (simp add: isValidNetwork_def getNetworkConfig_def)

lemma ex_token_cycle_repeat:
  "analyzeCoinFlows ex_tokenConfig ''testnet'' (ex_page [ex_tx1]) 3000 [ex_tokenSnapshot1]
     = Inr (None, [ex_tokenSnapshot1])"
  by code_simp

lemma ex_nft_cycle_repeat:
  "analyzeNFTMovements ex_nftConfig ''testnet'' (Body (Some [ex_ntx1]) None) 3000 [ex_nftSnapshot1]
     = Inr (None, [ex_nftSnapshot1])"
  by code_simp

lemma ex_wallet_cycle_empty:
  "createWalletSnapshot ex_address ''testnet'' (ex_walletEnv (Body (Some []) None)) 2000 []
     = Inr (ex_walletSnapshotEmpty 2000, [ex_walletSnapshotEmpty 2000])"
  by code_simp

lemma ex_wallet_cycle_empty_again:
  "createWalletSnapshot ex_address ''testnet'' (ex_walletEnv (Body (Some []) None)) 3000
       [ex_walletSnapshotEmpty 2000]
     = Inr (ex_walletSnapshotEmpty 3000, [ex_walletSnapshotEmpty 2000, ex_walletSnapshotEmpty 3000])"
  by code_simp

lemma createWalletSnapshot_persisted:
  assumes "createWalletSnapshot wallet network env now store = Inr (s, store')"
  shows "store' = store @ [s]"
  using assms
  by (auto simp: createWalletSnapshot_def saveWalletSnapshot_def Let_def
           split: sum.splits walletInfoResponse.splits if_splits)

lemma fetchLatestTransactions_tokenInfo:
  "snd (fetchLatestTransactions upstream) = first_token (fst (fetchLatestTransactions upstream))"
  by (simp add: fetchLatestTransactions_def first_token_def Let_def split: option.splits prod.splits)

lemma fetchLatestNFTTransactions_tokenInfo:
  "snd (fetchLatestNFTTransactions upstream)
     = first_nft_token (fst (fetchLatestNFTTransactions upstream))"
  by (simp add: fetchLatestNFTTransactions_def first_nft_token_def
           split: response.splits option.splits)

lemma ex_token_empty_page:
  "analyzeCoinFlows ex_tokenConfig ''testnet'' (ex_page []) 2000 [] = Inl CouldNotFetchTokenInfo"
  by code_simp

lemma ex_token_feed_down:
  "analyzeCoinFlows ex_tokenConfig ''testnet'' (\<lambda>e. RequestFailed) 2000 []
     = Inl CouldNotFetchTokenInfo"
  by code_simp

lemma ex_nft_empty_page:
  "analyzeNFTMovements ex_nftConfig ''testnet'' (Body (Some []) None) 2000 []
     = Inl CouldNotFetchTokenInfo"
  by code_simp

lemma ex_nft_feed_down:
  "analyzeNFTMovements ex_nftConfig ''testnet'' RequestFailed 2000 [] = Inl CouldNotFetchTokenInfo"
  by code_simp

lemma createWalletSnapshot_result:
  assumes "createWalletSnapshot wallet network env now store = Inr (s, store')"
  shows "ws_dataQuality s \<in> set walletDataQualityEnum"
    and "ws_dataQuality s =
           (case fetchWalletTransactions env of
              None \<Rightarrow> ''SERVICE_UNAVAILABLE''
            | Some xs \<Rightarrow> (if length xs > 0 then ''COMPLETE'' else ''LIMITED''))"
    and "ws_riskScore s =
           calculateRiskScore (case fetchWalletTransactions env of None \<Rightarrow> [] | Some xs \<Rightarrow> xs)
             (ws_transactionMetrics s)"
  using assms
  by (auto simp: createWalletSnapshot_def saveWalletSnapshot_def walletSchemaValid_def Let_def
           split: sum.splits walletInfoResponse.splits if_splits)

text \<open>No wallet cycle whose three transaction requests all fail returns a snapshot: the
  data quality \<open>SERVICE_UNAVAILABLE\<close> that the cycle writes is not among the values that
  \<open>analysisMetadataSchema\<close> accepts.\<close>

lemma createWalletSnapshot_unavailable:
  assumes "fetchWalletTransactions env = None"
  shows "createWalletSnapshot wallet network env now store \<noteq> Inr (s, store')"
proof
  assume a: "createWalletSnapshot wallet network env now store = Inr (s, store')"
  from createWalletSnapshot_result(1)[OF a] createWalletSnapshot_result(2)[OF a] assms
  show False
    by (simp add: walletDataQualityEnum_def)
qed



section \<open>Facts about the submission route and the worker\<close>

lemma networkEnum_isValidNetwork: "networkEnum n \<Longrightarrow> isValidNetwork n"
  by (auto simp: networkEnum_def isValidNetwork_def NETWORKS_def toLowerCase_def lower_char_def)

lemma default_network_valid: "isValidNetwork DEFAULT_NETWORK" "networkEnum DEFAULT_NETWORK"
  by (simp_all add: networkEnum_def isValidNetwork_def NETWORKS_def toLowerCase_def
        lower_char_def DEFAULT_NETWORK_def)

text \<open>A request that passes the checks of the route and the validators of \<open>jobSchema\<close>.\<close>

lemma JobModel_create_ok:
  assumes "rq_action req = Some action" "action \<noteq> []" "rq_payload req = Some pl"
    and "rq_type req = Some ty" "ty = ''scheduled'' \<or> ty = ''retry''" "networkEnum network"
  shows "\<exists>job. JobModel_create req network w = Inr (job, w \<lparr> w_jobs := w_jobs w @ [job] \<rparr>)
           \<and> jb_action job = action \<and> jb_status job = Pending \<and> jb_type job = ty
           \<and> jb_id job = fresh_id (w_jobs w)"
  using assms by (auto simp: JobModel_create_def truthy_def Let_def)

lemma jobRoutes_post_accepted:
  assumes a: "rq_action req = Some action" "action \<noteq> []" "rq_payload req = Some pl"
    and n: "rq_network req = None \<or> (\<exists>n. rq_network req = Some n \<and> networkEnum n)"
    and t: "(rq_type req = Some ''scheduled'' \<and> rq_scheduledAt req \<noteq> None)
            \<or> (rq_type req = Some ''retry'' \<and> rq_intervalMinutes req \<noteq> None
                \<and> rq_intervalMinutes req \<noteq> Some 0)"
    and b: "w_brokerBudget w = None"
  shows "\<exists>job. fst (jobRoutes_post req now w) = Reply 200 (Some job)
           \<and> jb_action job = action \<and> jb_status job = Pending
           \<and> w_jobs (snd (jobRoutes_post req now w)) = w_jobs w @ [job]"
proof -
  define network where "network = (case rq_network req of None \<Rightarrow> DEFAULT_NETWORK | Some n \<Rightarrow> n)"
  have ne: "networkEnum network" and nv: "isValidNetwork network"
    using n default_network_valid networkEnum_isValidNetwork
    by (auto simp: network_def)
  from t obtain ty where ty: "rq_type req = Some ty" "ty = ''scheduled'' \<or> ty = ''retry''"
    by auto
  from JobModel_create_ok[OF a(1,2,3) ty ne, of w]
  obtain job where j: "JobModel_create req network w = Inr (job, w \<lparr> w_jobs := w_jobs w @ [job] \<rparr>)"
    "jb_action job = action" "jb_status job = Pending" "jb_type job = ty"
    by blast
  have "fst (jobRoutes_post req now w) = Reply 200 (Some job)
        \<and> w_jobs (snd (jobRoutes_post req now w)) = w_jobs w @ [job]"
    using t ty j nv b
    by (auto simp: jobRoutes_post_def jobQueue_add_def Let_def network_def[symmetric])
  with j show ?thesis by blast
qed

lemma runTask_unknown:
  "action \<notin> set [''wallet_snapshot'', ''analyze_coin_flows'', ''analyze_nft_movements'']
     \<Longrightarrow> runTask action pl network up now w = Inl UnknownActionType"
  by (simp add: runTask_def Let_def)

lemma jobRoutes_post_broker_down:
  assumes a: "rq_action req = Some action" "action \<noteq> []" "rq_payload req = Some pl"
    and n: "rq_network req = None \<or> (\<exists>n. rq_network req = Some n \<and> networkEnum n)"
    and t: "(rq_type req = Some ''scheduled'' \<and> rq_scheduledAt req \<noteq> None \<and> k = 0)
            \<or> (rq_type req = Some ''retry'' \<and> rq_intervalMinutes req \<noteq> None
                \<and> rq_intervalMinutes req \<noteq> Some 0 \<and> k \<le> 1)"
    and b: "w_brokerBudget w = Some k"
  shows "fst (jobRoutes_post req now w) = Reply 500 None
         \<and> (\<exists>job. w_jobs (snd (jobRoutes_post req now w)) = w_jobs w @ [job]
                \<and> jb_status job = Pending)
         \<and> length (w_queue (snd (jobRoutes_post req now w))) = length (w_queue w) + k"
proof -
  define network where "network = (case rq_network req of None \<Rightarrow> DEFAULT_NETWORK | Some n \<Rightarrow> n)"
  have ne: "networkEnum network" and nv: "isValidNetwork network"
    using n default_network_valid networkEnum_isValidNetwork
    by (auto simp: network_def)
  from t obtain ty where ty: "rq_type req = Some ty" "ty = ''scheduled'' \<or> ty = ''retry''"
    by auto
  from JobModel_create_ok[OF a(1,2,3) ty ne, of w]
  obtain job where j: "JobModel_create req network w = Inr (job, w \<lparr> w_jobs := w_jobs w @ [job] \<rparr>)"
    "jb_action job = action" "jb_status job = Pending" "jb_type job = ty"
    by blast
  have k: "k = 0 \<or> k = Suc 0" using t by auto
  have "fst (jobRoutes_post req now w) = Reply 500 None
        \<and> w_jobs (snd (jobRoutes_post req now w)) = w_jobs w @ [job]
        \<and> length (w_queue (snd (jobRoutes_post req now w))) = length (w_queue w) + k"
    using t ty j nv b k
    by (auto simp: jobRoutes_post_def jobQueue_add_def Let_def network_def[symmetric])
  with j show ?thesis by blast
qed

text \<open>\<open>runTask\<close> reads and writes the snapshot collections only.\<close>

lemma runTask_frame:
  assumes "runTask action pl network up now w = Inr w'"
  shows "w_jobs w' = w_jobs w" "w_queue w' = w_queue w" "w_brokerBudget w' = w_brokerBudget w"
  using assms
  by (auto simp: runTask_def Let_def split: if_splits sum.splits prod.splits)

lemma runTask_findByIdAndUpdate:
  "runTask action pl network up now (findByIdAndUpdate i f w) =
     (case runTask action pl network up now w of
        Inl e \<Rightarrow> Inl e
      | Inr w' \<Rightarrow> Inr (findByIdAndUpdate i f w'))"
  by (simp add: runTask_def findByIdAndUpdate_def Let_def split: sum.splits prod.splits)

lemma findByIdAndUpdate_status:
  assumes "j \<in> set (w_jobs (findByIdAndUpdate i f w))" "jb_id j = i"
  shows "\<exists>j0 \<in> set (w_jobs w). jb_id j0 = i \<and> j = f j0"
  using assms by (auto simp: findByIdAndUpdate_def split: if_splits)

lemma findByIdAndUpdate_ids:
  "(\<And>j. jb_id (f j) = jb_id j) \<Longrightarrow>
     map jb_id (w_jobs (findByIdAndUpdate i f w)) = map jb_id (w_jobs w)"
  by (simp add: findByIdAndUpdate_def)

lemma findByIdAndUpdate_fields [simp]:
  "w_queue (findByIdAndUpdate i f w) = w_queue w"
  "w_brokerBudget (findByIdAndUpdate i f w) = w_brokerBudget w"
  by (simp_all add: findByIdAndUpdate_def)

lemma jobQueue_add_frame:
  assumes "jobQueue_add entry w = Inr w'"
  shows "w_jobs w' = w_jobs w" "w_queue w' = w_queue w @ [entry]"
  using assms by (auto simp: jobQueue_add_def split: option.splits nat.splits)

lemma jobQueue_add_ok:
  "w_brokerBudget w \<noteq> Some 0 \<Longrightarrow> \<exists>w'. jobQueue_add entry w = Inr w'"
  by (auto simp: jobQueue_add_def split: option.splits nat.splits)


text \<open>The queue after one run of the handler, for a retry item.\<close>

lemma jobWorker_retry_queue:
  assumes "jd_type d = ''retry''"
  shows "w_queue (jobWorker d up now w) =
     (case runTask (jd_action d) (jd_payload d) (jd_network d) up now w of
        Inl err \<Rightarrow> w_queue w
      | Inr w2 \<Rightarrow>
          (if w_brokerBudget w = Some 0 then w_queue w
           else w_queue w @
             [\<lparr> qe_data = d \<lparr> jd_network := None, jd_scheduledAt := None \<rparr>,
                qe_delay = Some (times_60_1000 (jd_intervalMinutes d)),
                qe_repeatEvery = None \<rparr>]))"
proof (cases "runTask (jd_action d) (jd_payload d) (jd_network d) up now w")
  case (Inl err)
  have "jobWorker d up now w =
          job_failed (jd_jobId d) err
            (findByIdAndUpdate (jd_jobId d)
               (\<lambda>j. push_log ''INFO'' ''Job execution started'' (j \<lparr> jb_status := Running \<rparr>)) w)"
    using assms Inl by (simp add: jobWorker_def Let_def runTask_findByIdAndUpdate)
  then show ?thesis
    using Inl by (simp add: job_failed_def)
next
  case (Inr w2)
  note f = runTask_frame[OF Inr]
  define w3 where "w3 =
     findByIdAndUpdate (jd_jobId d)
       (\<lambda>j. push_log ''INFO'' ''Recurring job completed, scheduling next run''
               (j \<lparr> jb_lastRunAt := Some now,
                    jb_nextRunAt := Some (case times_60_1000 (jd_intervalMinutes d) of
                                            NaN \<Rightarrow> NaN | Num ms \<Rightarrow> Num (now + ms)) \<rparr>))
       (findByIdAndUpdate (jd_jobId d)
          (\<lambda>j. push_log ''INFO'' ''Job execution started'' (j \<lparr> jb_status := Running \<rparr>)) w2)"
  have j: "jobWorker d up now w =
          (case jobQueue_add
                  \<lparr> qe_data = d \<lparr> jd_network := None, jd_scheduledAt := None \<rparr>,
                    qe_delay = Some (times_60_1000 (jd_intervalMinutes d)),
                    qe_repeatEvery = None \<rparr> w3 of
             Inl err \<Rightarrow> job_failed (jd_jobId d) err w3
           | Inr w4 \<Rightarrow> w4)"
    using assms Inr unfolding w3_def
    by (simp add: jobWorker_def Let_def runTask_findByIdAndUpdate)
  have b: "w_brokerBudget w3 = w_brokerBudget w" and q: "w_queue w3 = w_queue w"
    by (simp_all add: w3_def f)
  show ?thesis
  proof (cases "w_brokerBudget w = Some 0")
    case True
    then have "jobWorker d up now w = job_failed (jd_jobId d) BrokerUnreachable w3"
      using j b by (simp add: jobQueue_add_def)
    then show ?thesis
      using True Inr q by (simp add: job_failed_def)
  next
    case False
    then obtain w4 where a: "jobQueue_add
                  \<lparr> qe_data = d \<lparr> jd_network := None, jd_scheduledAt := None \<rparr>,
                    qe_delay = Some (times_60_1000 (jd_intervalMinutes d)),
                    qe_repeatEvery = None \<rparr> w3 = Inr w4"
      using jobQueue_add_ok b by metis
    then have "jobWorker d up now w = w4" using j by simp
    then show ?thesis
      using False Inr q jobQueue_add_frame(2)[OF a] by simp
  qed
qed



lemma ex_worker_task_ok:
  "runTask (jd_action ex_retryData) (jd_payload ex_retryData) (jd_network ex_retryData)
       (ex_upstream (ex_page [ex_tx1])) 2000 ex_submitted
     = Inr (ex_submitted \<lparr> w_tokens := [ex_tokenSnapshot1] \<rparr>)"
  by code_simp

lemma ex_worker_task_failed:
  "runTask (jd_action ex_retryData) (jd_payload ex_retryData) (jd_network ex_retryData)
       (ex_upstream (\<lambda>e. RequestFailed)) 2000 ex_submitted
     = Inl CouldNotFetchTokenInfo"
  by code_simp

lemma ex_submission:
  "jobRoutes_post (ex_request ''analyze_coin_flows'' ''retry'') 0 (ex_world None)
     = (Reply 200 (Some (ex_job ''analyze_coin_flows'' ''retry'')), ex_submitted)"
  by code_simp

lemma jobRoutes_post_retry_queue:
  assumes a: "rq_action req = Some action" "action \<noteq> []" "rq_payload req = Some pl"
    and n: "rq_network req = None \<or> (\<exists>n. rq_network req = Some n \<and> networkEnum n)"
    and t: "rq_type req = Some ''retry''" "rq_intervalMinutes req = Some m" "m \<noteq> 0"
    and b: "w_brokerBudget w = None"
  shows "\<exists>dd. w_queue (snd (jobRoutes_post req now w)) =
               w_queue w @
                 [\<lparr> qe_data = dd, qe_delay = None, qe_repeatEvery = None \<rparr>,
                  \<lparr> qe_data = dd, qe_delay = Some (Num (m * 60 * 1000)),
                    qe_repeatEvery = Some (Num (m * 60 * 1000)) \<rparr>]
              \<and> jd_jobId dd = fresh_id (w_jobs w) \<and> jd_type dd = ''retry''
              \<and> jd_intervalMinutes dd = Some m"
proof -
  define network where "network = (case rq_network req of None \<Rightarrow> DEFAULT_NETWORK | Some n \<Rightarrow> n)"
  have ne: "networkEnum network" and nv: "isValidNetwork network"
    using n default_network_valid networkEnum_isValidNetwork
    by (auto simp: network_def)
  show ?thesis
    using a t b ne nv
    by (simp add: jobRoutes_post_def JobModel_create_def jobQueue_add_def Let_def truthy_def
          network_def[symmetric] times_60_1000_def)
qed

section \<open>The claims of the specification\<close>

subsection \<open>Claim C1\<close>

text \<open>
  Claim C1, as the specification states it for the wallet kind: with a prior snapshot and a
  fetched page that holds no transaction outside the prior snapshot, the cycle returns
  \<open>null\<close> and the series is unchanged. \<open>createWalletSnapshot\<close> keeps no list of processed
  hashes and has no such exit. Here the prior snapshot exists, the fetched page is empty,
  and the cycle returns a new snapshot and appends it to the series.
\<close>

theorem C1_counterexample:
  "latestWalletSnapshot [ex_walletSnapshotEmpty 2000] ex_address ''testnet''
     = Some (ex_walletSnapshotEmpty 2000)
   \<and> fetchWalletTransactions (ex_walletEnv (Body (Some []) None)) = Some []
   \<and> createWalletSnapshot ex_address ''testnet'' (ex_walletEnv (Body (Some []) None)) 3000
        [ex_walletSnapshotEmpty 2000]
       = Inr (ex_walletSnapshotEmpty 3000,
              [ex_walletSnapshotEmpty 2000, ex_walletSnapshotEmpty 3000])
   \<and> [ex_walletSnapshotEmpty 2000, ex_walletSnapshotEmpty 3000] \<noteq> [ex_walletSnapshotEmpty 2000]"
proof -
  have "latestWalletSnapshot [ex_walletSnapshotEmpty 2000] ex_address ''testnet''
          = Some (ex_walletSnapshotEmpty 2000)"
    by code_simp
  moreover have "fetchWalletTransactions (ex_walletEnv (Body (Some []) None)) = Some []"
    by code_simp
  ultimately show ?thesis
    using ex_wallet_cycle_empty_again by simp
qed

text \<open>
  Claim C1, amended. For the token and NFT kinds: on a supported network and a well-formed
  address, if the fetch obtained token info (the page is non-empty and its first item carries
  it), a prior snapshot exists for the address and network, and every fetched item has its
  hash in the prior snapshot's processed-hash list, then the cycle returns \<open>null\<close> and the
  snapshot series is unchanged. The wallet kind has no such exit: every wallet cycle that
  returns has appended the snapshot it returns.
\<close>

theorem C1_short_circuit:
  "(isValidNetwork network \<and> isValidEthereumAddress (tc_address config)
      \<and> snd (fetchLatestTransactions upstream) \<noteq> None
      \<and> latestMemeCoinSnapshot store (tc_address config) network = Some prev
      \<and> (\<forall>tx \<in> set (fst (fetchLatestTransactions upstream)).
            tx_txHash tx \<in> set (fm_processedTransactionHashes (mc_flowMetrics prev))) \<longrightarrow>
      analyzeCoinFlows config network upstream now store = Inr (None, store))
   \<and> (isValidNetwork nnetwork \<and> isValidEthereumAddress (nc_address nconfig)
        \<and> snd (fetchLatestNFTTransactions nupstream) \<noteq> None
        \<and> latestNFTSnapshot nstore (nc_address nconfig) nnetwork = Some nprev
        \<and> (\<forall>tx \<in> set (fst (fetchLatestNFTTransactions nupstream)).
              nx_txHash tx \<in> set (nm_processedTransactionHashes (ns_movementMetrics nprev))) \<longrightarrow>
        analyzeNFTMovements nconfig nnetwork nupstream nnow nstore = Inr (None, nstore))
   \<and> (createWalletSnapshot wallet wnetwork env wnow wstore = Inr (ws, wstore') \<longrightarrow>
        wstore' = wstore @ [ws])"
proof (intro conjI impI)
  assume h: "isValidNetwork network \<and> isValidEthereumAddress (tc_address config)
      \<and> snd (fetchLatestTransactions upstream) \<noteq> None
      \<and> latestMemeCoinSnapshot store (tc_address config) network = Some prev
      \<and> (\<forall>tx \<in> set (fst (fetchLatestTransactions upstream)).
            tx_txHash tx \<in> set (fm_processedTransactionHashes (mc_flowMetrics prev)))"
  then obtain latest info where f: "fetchLatestTransactions upstream = (latest, Some info)"
    by (cases "fetchLatestTransactions upstream") auto
  from h f have "getNewTransactions latest (Some prev) = []"
    by (auto simp: getNewTransactions_def filter_empty_conv)
  with h f show "analyzeCoinFlows config network upstream now store = Inr (None, store)"
    by (simp add: analyzeCoinFlows_def getNetworkConfig_valid Let_def)
next
  assume h: "isValidNetwork nnetwork \<and> isValidEthereumAddress (nc_address nconfig)
        \<and> snd (fetchLatestNFTTransactions nupstream) \<noteq> None
        \<and> latestNFTSnapshot nstore (nc_address nconfig) nnetwork = Some nprev
        \<and> (\<forall>tx \<in> set (fst (fetchLatestNFTTransactions nupstream)).
              nx_txHash tx \<in> set (nm_processedTransactionHashes (ns_movementMetrics nprev)))"
  then obtain latest info where f: "fetchLatestNFTTransactions nupstream = (latest, Some info)"
    by (cases "fetchLatestNFTTransactions nupstream") auto
  from h f have "getNewNFTTransactions latest (Some nprev) = []"
    by (auto simp: getNewNFTTransactions_def filter_empty_conv)
  with h f show "analyzeNFTMovements nconfig nnetwork nupstream nnow nstore = Inr (None, nstore)"
    by (simp add: analyzeNFTMovements_def getNetworkConfig_valid Let_def)
next
  assume "createWalletSnapshot wallet wnetwork env wnow wstore = Inr (ws, wstore')"
  then show "wstore' = wstore @ [ws]"
    by (rule createWalletSnapshot_persisted)
qed

theorem C1_short_circuit_witness:
  "isValidNetwork ''testnet'' \<and> isValidEthereumAddress (tc_address ex_tokenConfig)
   \<and> snd (fetchLatestTransactions (ex_page [ex_tx1])) \<noteq> None
   \<and> latestMemeCoinSnapshot [ex_tokenSnapshot1] (tc_address ex_tokenConfig) ''testnet''
       = Some ex_tokenSnapshot1
   \<and> list_all
        (\<lambda>tx. tx_txHash tx \<in> set (fm_processedTransactionHashes (mc_flowMetrics ex_tokenSnapshot1)))
        (fst (fetchLatestTransactions (ex_page [ex_tx1])))
   \<and> analyzeCoinFlows ex_tokenConfig ''testnet'' (ex_page [ex_tx1]) 3000 [ex_tokenSnapshot1]
       = Inr (None, [ex_tokenSnapshot1])
   \<and> isValidEthereumAddress (nc_address ex_nftConfig)
   \<and> snd (fetchLatestNFTTransactions (Body (Some [ex_ntx1]) None)) \<noteq> None
   \<and> latestNFTSnapshot [ex_nftSnapshot1] (nc_address ex_nftConfig) ''testnet''
       = Some ex_nftSnapshot1
   \<and> list_all
        (\<lambda>tx. nx_txHash tx
           \<in> set (nm_processedTransactionHashes (ns_movementMetrics ex_nftSnapshot1)))
        (fst (fetchLatestNFTTransactions (Body (Some [ex_ntx1]) None)))
   \<and> analyzeNFTMovements ex_nftConfig ''testnet'' (Body (Some [ex_ntx1]) None) 3000
         [ex_nftSnapshot1]
       = Inr (None, [ex_nftSnapshot1])
   \<and> createWalletSnapshot ex_address ''testnet'' (ex_walletEnv (Body (Some []) None)) 2000 []
       = Inr (ex_walletSnapshotEmpty 2000, [] @ [ex_walletSnapshotEmpty 2000])"
proof -
  have h1: "isValidNetwork ''testnet'' \<and> isValidEthereumAddress (tc_address ex_tokenConfig)
      \<and> snd (fetchLatestTransactions (ex_page [ex_tx1])) \<noteq> None
      \<and> latestMemeCoinSnapshot [ex_tokenSnapshot1] (tc_address ex_tokenConfig) ''testnet''
          = Some ex_tokenSnapshot1
      \<and> list_all
           (\<lambda>tx. tx_txHash tx
              \<in> set (fm_processedTransactionHashes (mc_flowMetrics ex_tokenSnapshot1)))
           (fst (fetchLatestTransactions (ex_page [ex_tx1])))"
    by code_simp
  have h2: "isValidNetwork ''testnet'' \<and> isValidEthereumAddress (nc_address ex_nftConfig)
        \<and> snd (fetchLatestNFTTransactions (Body (Some [ex_ntx1]) None)) \<noteq> None
        \<and> latestNFTSnapshot [ex_nftSnapshot1] (nc_address ex_nftConfig) ''testnet''
            = Some ex_nftSnapshot1
        \<and> list_all
             (\<lambda>tx. nx_txHash tx
                \<in> set (nm_processedTransactionHashes (ns_movementMetrics ex_nftSnapshot1)))
             (fst (fetchLatestNFTTransactions (Body (Some [ex_ntx1]) None)))"
    by code_simp
  note c = C1_short_circuit
             [where network = "''testnet''" and config = ex_tokenConfig
                and upstream = "ex_page [ex_tx1]" and store = "[ex_tokenSnapshot1]"
                and prev = ex_tokenSnapshot1 and now = 3000
                and nnetwork = "''testnet''" and nconfig = ex_nftConfig
                and nupstream = "Body (Some [ex_ntx1]) None" and nstore = "[ex_nftSnapshot1]"
                and nprev = ex_nftSnapshot1 and nnow = 3000
                and wallet = ex_address and wnetwork = "''testnet''"
                and env = "ex_walletEnv (Body (Some []) None)" and wnow = 2000
                and wstore = "[]" and ws = "ex_walletSnapshotEmpty 2000"
                and wstore' = "[ex_walletSnapshotEmpty 2000]"]
  have w: "createWalletSnapshot ex_address ''testnet'' (ex_walletEnv (Body (Some []) None)) 2000 []
       = Inr (ex_walletSnapshotEmpty 2000, [] @ [ex_walletSnapshotEmpty 2000])"
    using c[THEN conjunct2, THEN conjunct2, THEN mp, OF ex_wallet_cycle_empty]
          ex_wallet_cycle_empty by simp
  have t: "analyzeCoinFlows ex_tokenConfig ''testnet'' (ex_page [ex_tx1]) 3000 [ex_tokenSnapshot1]
             = Inr (None, [ex_tokenSnapshot1])"
    using c[THEN conjunct1] h1 unfolding list_all_iff by blast
  have n: "analyzeNFTMovements ex_nftConfig ''testnet'' (Body (Some [ex_ntx1]) None) 3000
             [ex_nftSnapshot1] = Inr (None, [ex_nftSnapshot1])"
    using c[THEN conjunct2, THEN conjunct1] h2 unfolding list_all_iff by blast
  show ?thesis
    using h1 h2 w t n by (intro conjI) (blast | assumption)+
qed

subsection \<open>Claim C2\<close>

text \<open>
  Claim C2, as the specification states it: a submission whose action is not one of
  \<open>wallet_snapshot\<close>, \<open>analyze_coin_flows\<close>, \<open>analyze_nft_movements\<close> is answered with status
  400 and creates no Job record. The route does not look at the action and \<open>jobSchema\<close> only
  requires it. Here the action \<open>mint_tokens\<close> of a scheduled submission is answered with
  status 200 and the Job record is created.
\<close>

theorem C2_counterexample:
  "''mint_tokens'' \<notin> set [''wallet_snapshot'', ''analyze_coin_flows'', ''analyze_nft_movements'']
   \<and> fst (jobRoutes_post (ex_request ''mint_tokens'' ''scheduled'') 0 (ex_world None))
       = Reply 200 (Some (ex_job ''mint_tokens'' ''scheduled''))
   \<and> w_jobs (snd (jobRoutes_post (ex_request ''mint_tokens'' ''scheduled'') 0 (ex_world None)))
       = [ex_job ''mint_tokens'' ''scheduled'']"
  by code_simp

text \<open>
  Claim C2, amended. For every submission whose action is a non-empty string outside the
  three known actions, with a payload, an absent or listed network, a type \<open>scheduled\<close> with
  \<open>scheduledAt\<close> or \<open>retry\<close> with a non-zero \<open>intervalMinutes\<close>, and a reachable broker:
  \<open>POST /jobs\<close> answers with status 200 and creates a pending Job record with that action. The
  action is rejected when the job is executed: \<open>runTask\<close> throws "Unknown action type".
\<close>

theorem C2_unknown_action_accepted:
  "(rq_action req = Some action \<and> action \<noteq> []
      \<and> action \<notin> set [''wallet_snapshot'', ''analyze_coin_flows'', ''analyze_nft_movements'']
      \<and> rq_payload req = Some pl
      \<and> (rq_network req = None \<or> (\<exists>n. rq_network req = Some n \<and> networkEnum n))
      \<and> ((rq_type req = Some ''scheduled'' \<and> rq_scheduledAt req \<noteq> None)
          \<or> (rq_type req = Some ''retry'' \<and> rq_intervalMinutes req \<noteq> None
              \<and> rq_intervalMinutes req \<noteq> Some 0))
      \<and> w_brokerBudget w = None \<longrightarrow>
      (\<exists>job. fst (jobRoutes_post req now w) = Reply 200 (Some job)
          \<and> jb_action job = action \<and> jb_status job = Pending
          \<and> w_jobs (snd (jobRoutes_post req now w)) = w_jobs w @ [job])
      \<and> runTask action pl network up now w = Inl UnknownActionType)"
proof
  assume h: "rq_action req = Some action \<and> action \<noteq> []
      \<and> action \<notin> set [''wallet_snapshot'', ''analyze_coin_flows'', ''analyze_nft_movements'']
      \<and> rq_payload req = Some pl
      \<and> (rq_network req = None \<or> (\<exists>n. rq_network req = Some n \<and> networkEnum n))
      \<and> ((rq_type req = Some ''scheduled'' \<and> rq_scheduledAt req \<noteq> None)
          \<or> (rq_type req = Some ''retry'' \<and> rq_intervalMinutes req \<noteq> None
              \<and> rq_intervalMinutes req \<noteq> Some 0))
      \<and> w_brokerBudget w = None"
  then have "\<exists>job. fst (jobRoutes_post req now w) = Reply 200 (Some job)
          \<and> jb_action job = action \<and> jb_status job = Pending
          \<and> w_jobs (snd (jobRoutes_post req now w)) = w_jobs w @ [job]"
    by (intro jobRoutes_post_accepted[where pl = pl]) blast+
  moreover from h have "runTask action pl network up now w = Inl UnknownActionType"
    by (intro runTask_unknown) blast
  ultimately show "(\<exists>job. fst (jobRoutes_post req now w) = Reply 200 (Some job)
          \<and> jb_action job = action \<and> jb_status job = Pending
          \<and> w_jobs (snd (jobRoutes_post req now w)) = w_jobs w @ [job])
      \<and> runTask action pl network up now w = Inl UnknownActionType"
    by blast
qed

theorem C2_unknown_action_accepted_witness:
  "rq_action (ex_request ''mint_tokens'' ''retry'') = Some ''mint_tokens'' \<and> ''mint_tokens'' \<noteq> []
   \<and> ''mint_tokens'' \<notin> set [''wallet_snapshot'', ''analyze_coin_flows'', ''analyze_nft_movements'']
   \<and> rq_payload (ex_request ''mint_tokens'' ''retry'') = Some ex_payload
   \<and> rq_network (ex_request ''mint_tokens'' ''retry'') = None
   \<and> rq_type (ex_request ''mint_tokens'' ''retry'') = Some ''retry''
   \<and> rq_intervalMinutes (ex_request ''mint_tokens'' ''retry'') = Some 15
   \<and> w_brokerBudget (ex_world None) = None
   \<and> (\<exists>job. fst (jobRoutes_post (ex_request ''mint_tokens'' ''retry'') 0 (ex_world None))
               = Reply 200 (Some job)
          \<and> jb_action job = ''mint_tokens'' \<and> jb_status job = Pending
          \<and> w_jobs (snd (jobRoutes_post (ex_request ''mint_tokens'' ''retry'') 0 (ex_world None)))
              = w_jobs (ex_world None) @ [job])
   \<and> runTask ''mint_tokens'' ex_payload (Some ''testnet'') (ex_upstream (ex_page [ex_tx1])) 0
        (ex_world None) = Inl UnknownActionType"
proof -
  have h: "rq_action (ex_request ''mint_tokens'' ''retry'') = Some ''mint_tokens''
      \<and> ''mint_tokens'' \<noteq> []
      \<and> ''mint_tokens'' \<notin> set [''wallet_snapshot'', ''analyze_coin_flows'', ''analyze_nft_movements'']
      \<and> rq_payload (ex_request ''mint_tokens'' ''retry'') = Some ex_payload
      \<and> rq_network (ex_request ''mint_tokens'' ''retry'') = None
      \<and> rq_type (ex_request ''mint_tokens'' ''retry'') = Some ''retry''
      \<and> rq_intervalMinutes (ex_request ''mint_tokens'' ''retry'') = Some 15
      \<and> w_brokerBudget (ex_world None) = None"
    by (simp add: ex_request_def ex_world_def)
  note c = C2_unknown_action_accepted
             [where req = "ex_request ''mint_tokens'' ''retry''" and action = "''mint_tokens''"
                and pl = ex_payload and w = "ex_world None" and now = 0
                and network = "Some ''testnet''" and up = "ex_upstream (ex_page [ex_tx1])"]
  from h c show ?thesis
    by (simp del: set_simps)
qed

subsection \<open>Claim C3\<close>

text \<open>
  Claim C3, as the specification states it: when enrolling the job in the queue fails, the
  error is returned and no Job record is created. The route creates the record first and
  does not remove it. Here the broker refuses the only \<open>jobQueue.add\<close> of a scheduled
  submission: the reply has status 500, the queue is empty, and the Job record exists.
\<close>

theorem C3_counterexample:
  "fst (jobRoutes_post (ex_request ''wallet_snapshot'' ''scheduled'') 0 (ex_world (Some 0)))
     = Reply 500 None
   \<and> w_queue (snd (jobRoutes_post (ex_request ''wallet_snapshot'' ''scheduled'') 0
                     (ex_world (Some 0)))) = []
   \<and> w_jobs (snd (jobRoutes_post (ex_request ''wallet_snapshot'' ''scheduled'') 0
                    (ex_world (Some 0))))
       = [ex_job ''wallet_snapshot'' ''scheduled'']"
  by code_simp

text \<open>
  Claim C3, amended. For every submission that passes the checks of the route and of the
  schema, if the broker accepts only \<open>k\<close> further \<open>jobQueue.add\<close> calls (\<open>k = 0\<close> for a scheduled
  job, \<open>k \<le> 1\<close> for a retry job, which needs two), the error is returned to the caller (status
  500), the \<open>k\<close> accepted items stay in the queue, and the Job record, created before the
  enrolment with status pending, remains in the Job Store.
\<close>

theorem C3_job_record_survives_failed_enrolment:
  "rq_action req = Some action \<and> action \<noteq> [] \<and> rq_payload req = Some pl
   \<and> (rq_network req = None \<or> (\<exists>n. rq_network req = Some n \<and> networkEnum n))
   \<and> ((rq_type req = Some ''scheduled'' \<and> rq_scheduledAt req \<noteq> None \<and> k = 0)
       \<or> (rq_type req = Some ''retry'' \<and> rq_intervalMinutes req \<noteq> None
           \<and> rq_intervalMinutes req \<noteq> Some 0 \<and> k \<le> 1))
   \<and> w_brokerBudget w = Some k \<longrightarrow>
   fst (jobRoutes_post req now w) = Reply 500 None
   \<and> (\<exists>job. w_jobs (snd (jobRoutes_post req now w)) = w_jobs w @ [job]
          \<and> jb_status job = Pending)
   \<and> length (w_queue (snd (jobRoutes_post req now w))) = length (w_queue w) + k"
proof
  assume h: "rq_action req = Some action \<and> action \<noteq> [] \<and> rq_payload req = Some pl
   \<and> (rq_network req = None \<or> (\<exists>n. rq_network req = Some n \<and> networkEnum n))
   \<and> ((rq_type req = Some ''scheduled'' \<and> rq_scheduledAt req \<noteq> None \<and> k = 0)
       \<or> (rq_type req = Some ''retry'' \<and> rq_intervalMinutes req \<noteq> None
           \<and> rq_intervalMinutes req \<noteq> Some 0 \<and> k \<le> 1))
   \<and> w_brokerBudget w = Some k"
  then show "fst (jobRoutes_post req now w) = Reply 500 None
   \<and> (\<exists>job. w_jobs (snd (jobRoutes_post req now w)) = w_jobs w @ [job]
          \<and> jb_status job = Pending)
   \<and> length (w_queue (snd (jobRoutes_post req now w))) = length (w_queue w) + k"
    by (intro jobRoutes_post_broker_down[where pl = pl and action = action]) blast+
qed

theorem C3_job_record_survives_failed_enrolment_witness:
  "rq_action (ex_request ''analyze_coin_flows'' ''retry'') = Some ''analyze_coin_flows''
   \<and> ''analyze_coin_flows'' \<noteq> []
   \<and> rq_payload (ex_request ''analyze_coin_flows'' ''retry'') = Some ex_payload
   \<and> rq_network (ex_request ''analyze_coin_flows'' ''retry'') = None
   \<and> rq_type (ex_request ''analyze_coin_flows'' ''retry'') = Some ''retry''
   \<and> rq_intervalMinutes (ex_request ''analyze_coin_flows'' ''retry'') = Some 15
   \<and> w_brokerBudget (ex_world (Some 1)) = Some 1
   \<and> fst (jobRoutes_post (ex_request ''analyze_coin_flows'' ''retry'') 0 (ex_world (Some 1)))
       = Reply 500 None
   \<and> (\<exists>job. w_jobs (snd (jobRoutes_post (ex_request ''analyze_coin_flows'' ''retry'') 0
                           (ex_world (Some 1))))
               = w_jobs (ex_world (Some 1)) @ [job]
          \<and> jb_status job = Pending)
   \<and> length (w_queue (snd (jobRoutes_post (ex_request ''analyze_coin_flows'' ''retry'') 0
                             (ex_world (Some 1)))))
       = length (w_queue (ex_world (Some 1))) + 1"
proof -
  have h: "rq_action (ex_request ''analyze_coin_flows'' ''retry'') = Some ''analyze_coin_flows''
      \<and> ''analyze_coin_flows'' \<noteq> []
      \<and> rq_payload (ex_request ''analyze_coin_flows'' ''retry'') = Some ex_payload
      \<and> rq_network (ex_request ''analyze_coin_flows'' ''retry'') = None
      \<and> rq_type (ex_request ''analyze_coin_flows'' ''retry'') = Some ''retry''
      \<and> rq_intervalMinutes (ex_request ''analyze_coin_flows'' ''retry'') = Some 15
      \<and> w_brokerBudget (ex_world (Some 1)) = Some 1"
    by (simp add: ex_request_def ex_world_def)
  note c = C3_job_record_survives_failed_enrolment
             [where req = "ex_request ''analyze_coin_flows'' ''retry''"
                and action = "''analyze_coin_flows''" and pl = ex_payload
                and w = "ex_world (Some 1)" and now = 0 and k = 1]
  from h c show ?thesis
    by simp
qed

subsection \<open>Claim C4\<close>



subsection \<open>Claim C5\<close>



subsection \<open>Claim C6\<close>

text \<open>
  Claim C6: a wallet cycle in which the balance lookup succeeds and every transaction
  endpoint fails does not fail, and persists a snapshot with data quality
  \<open>SERVICE_UNAVAILABLE\<close>. The code builds that snapshot, but \<open>analysisMetadataSchema\<close> lists
  \<open>COMPLETE\<close>, \<open>LIMITED\<close>, \<open>PARTIAL\<close> and \<open>UNAVAILABLE\<close> as the values of \<open>dataQuality\<close>, so
  \<open>snapshot.save()\<close> rejects it: every such cycle (supported network, well-formed address,
  account lookup answering for this wallet, the three transaction requests failing) ends in
  the validation error, whatever the holdings requests and the stored snapshots are.
\<close>

theorem C6_service_unavailable_rejected:
  "isValidNetwork network \<and> isValidEthereumAddress wallet
   \<and> we_walletInfo env = InfoOk address balance
   \<and> address \<noteq> [] \<and> toLowerCase address = toLowerCase wallet
   \<and> we_txAccounts env = RequestFailed \<and> we_txEvm env = RequestFailed
   \<and> we_txContracts env = RequestFailed \<longrightarrow>
   createWalletSnapshot wallet network env now store = Inl ValidationError"
proof
  assume h: "isValidNetwork network \<and> isValidEthereumAddress wallet
   \<and> we_walletInfo env = InfoOk address balance
   \<and> address \<noteq> [] \<and> toLowerCase address = toLowerCase wallet
   \<and> we_txAccounts env = RequestFailed \<and> we_txEvm env = RequestFailed
   \<and> we_txContracts env = RequestFailed"
  then have f: "fetchWalletTransactions env = None"
    by (simp add: fetchWalletTransactions_def)
  from h f show "createWalletSnapshot wallet network env now store = Inl ValidationError"
    by (simp add: createWalletSnapshot_def getNetworkConfig_valid truthy_def Let_def
          saveWalletSnapshot_def walletSchemaValid_def walletDataQualityEnum_def)
qed

text \<open>At this input (balance and holdings fetched, the three transaction requests failing, an
  empty collection) the cycle throws and nothing is persisted.\<close>

theorem C6_service_unavailable_rejected_witness:
  "isValidNetwork ''testnet'' \<and> isValidEthereumAddress ex_address
   \<and> we_walletInfo (ex_walletEnv RequestFailed) = InfoOk ex_address ''19915909339600245000''
   \<and> ex_address \<noteq> []
   \<and> we_txAccounts (ex_walletEnv RequestFailed) = RequestFailed
   \<and> we_txEvm (ex_walletEnv RequestFailed) = RequestFailed
   \<and> we_txContracts (ex_walletEnv RequestFailed) = RequestFailed
   \<and> createWalletSnapshot ex_address ''testnet'' (ex_walletEnv RequestFailed) 2000 []
       = Inl ValidationError"
proof -
  have h: "isValidNetwork ''testnet'' \<and> isValidEthereumAddress ex_address
   \<and> we_walletInfo (ex_walletEnv RequestFailed) = InfoOk ex_address ''19915909339600245000''
   \<and> ex_address \<noteq> [] \<and> toLowerCase ex_address = toLowerCase ex_address
   \<and> we_txAccounts (ex_walletEnv RequestFailed) = RequestFailed
   \<and> we_txEvm (ex_walletEnv RequestFailed) = RequestFailed
   \<and> we_txContracts (ex_walletEnv RequestFailed) = RequestFailed"
    by code_simp
  from C6_service_unavailable_rejected
         [where network = "''testnet''" and wallet = ex_address
            and env = "ex_walletEnv RequestFailed" and address = ex_address
            and balance = "''19915909339600245000''" and now = 2000 and store = "[]",
          THEN mp, OF h] h
  show ?thesis by blast
qed

subsection \<open>Claim C7\<close>

text \<open>
  Claim C7, as the specification states it: a token or NFT cycle with zero new items and no
  prior snapshot writes a first snapshot with \<open>totalTransfers = 0\<close> when the fetch succeeded, and
  returns \<open>null\<close> when the feed could not be read. The code does neither. With an empty store,
  a feed that answers with an empty page and a feed whose requests all fail both end in the
  error "Could not fetch token info": no snapshot is returned or written (the result is not
  \<open>Inr (Some S, _)\<close>), and the result is not \<open>null\<close> (\<open>Inr (None, _)\<close>).
\<close>

theorem C7_counterexample:
  "analyzeCoinFlows ex_tokenConfig ''testnet'' (ex_page []) 2000 [] = Inl CouldNotFetchTokenInfo
   \<and> analyzeCoinFlows ex_tokenConfig ''testnet'' (ex_page []) 2000 [] \<noteq> Inr (None, [])
   \<and> analyzeCoinFlows ex_tokenConfig ''testnet'' (\<lambda>e. RequestFailed) 2000 []
       = Inl CouldNotFetchTokenInfo
   \<and> analyzeCoinFlows ex_tokenConfig ''testnet'' (\<lambda>e. RequestFailed) 2000 [] \<noteq> Inr (None, [])
   \<and> analyzeNFTMovements ex_nftConfig ''testnet'' (Body (Some []) None) 2000 []
       = Inl CouldNotFetchTokenInfo
   \<and> analyzeNFTMovements ex_nftConfig ''testnet'' RequestFailed 2000 []
       = Inl CouldNotFetchTokenInfo"
  by (simp add: ex_token_empty_page ex_token_feed_down ex_nft_empty_page ex_nft_feed_down)

text \<open>
  Claim C7, amended. For every token or NFT cycle on a supported network and a well-formed
  address: when there is no prior snapshot and the cycle has zero new items, the cycle fails
  with the error "Could not fetch token info" (it returns nothing and writes nothing). Token
  info is read from the first fetched item, so a cycle that obtained it has a non-empty page.
\<close>

theorem C7_no_prior_no_items_fails:
  "(isValidNetwork network \<and> isValidEthereumAddress (tc_address config)
      \<and> latestMemeCoinSnapshot store (tc_address config) network = None
      \<and> getNewTransactions (fst (fetchLatestTransactions upstream))
            (latestMemeCoinSnapshot store (tc_address config) network) = [] \<longrightarrow>
      analyzeCoinFlows config network upstream now store = Inl CouldNotFetchTokenInfo)
   \<and> (snd (fetchLatestTransactions upstreamB) \<noteq> None \<longrightarrow>
        fst (fetchLatestTransactions upstreamB) \<noteq> [])
   \<and> (isValidNetwork nnetwork \<and> isValidEthereumAddress (nc_address nconfig)
        \<and> latestNFTSnapshot nstore (nc_address nconfig) nnetwork = None
        \<and> getNewNFTTransactions (fst (fetchLatestNFTTransactions nupstream))
              (latestNFTSnapshot nstore (nc_address nconfig) nnetwork) = [] \<longrightarrow>
        analyzeNFTMovements nconfig nnetwork nupstream nnow nstore = Inl CouldNotFetchTokenInfo)
   \<and> (snd (fetchLatestNFTTransactions nupstreamB) \<noteq> None \<longrightarrow>
        fst (fetchLatestNFTTransactions nupstreamB) \<noteq> [])"
proof (intro conjI impI)
  assume h: "isValidNetwork network \<and> isValidEthereumAddress (tc_address config)
      \<and> latestMemeCoinSnapshot store (tc_address config) network = None
      \<and> getNewTransactions (fst (fetchLatestTransactions upstream))
            (latestMemeCoinSnapshot store (tc_address config) network) = []"
  then have e: "fst (fetchLatestTransactions upstream) = []"
    by (auto simp: getNewTransactions_def)
  then have "snd (fetchLatestTransactions upstream) = None"
    by (simp add: fetchLatestTransactions_tokenInfo first_token_def)
  with e have "fetchLatestTransactions upstream = ([], None)"
    by (simp add: prod_eq_iff)
  with h show "analyzeCoinFlows config network upstream now store = Inl CouldNotFetchTokenInfo"
    by (simp add: analyzeCoinFlows_def getNetworkConfig_valid)
next
  assume "snd (fetchLatestTransactions upstreamB) \<noteq> None"
  then show "fst (fetchLatestTransactions upstreamB) \<noteq> []"
    by (auto simp: fetchLatestTransactions_tokenInfo first_token_def)
next
  assume h: "isValidNetwork nnetwork \<and> isValidEthereumAddress (nc_address nconfig)
        \<and> latestNFTSnapshot nstore (nc_address nconfig) nnetwork = None
        \<and> getNewNFTTransactions (fst (fetchLatestNFTTransactions nupstream))
              (latestNFTSnapshot nstore (nc_address nconfig) nnetwork) = []"
  then have e: "fst (fetchLatestNFTTransactions nupstream) = []"
    by (auto simp: getNewNFTTransactions_def)
  then have "snd (fetchLatestNFTTransactions nupstream) = None"
    by (simp add: fetchLatestNFTTransactions_tokenInfo first_nft_token_def)
  with e have "fetchLatestNFTTransactions nupstream = ([], None)"
    by (simp add: prod_eq_iff)
  with h show "analyzeNFTMovements nconfig nnetwork nupstream nnow nstore
                 = Inl CouldNotFetchTokenInfo"
    by (simp add: analyzeNFTMovements_def getNetworkConfig_valid)
next
  assume "snd (fetchLatestNFTTransactions nupstreamB) \<noteq> None"
  then show "fst (fetchLatestNFTTransactions nupstreamB) \<noteq> []"
    by (auto simp: fetchLatestNFTTransactions_tokenInfo first_nft_token_def)
qed

theorem C7_no_prior_no_items_fails_witness:
  "isValidNetwork ''testnet'' \<and> isValidEthereumAddress (tc_address ex_tokenConfig)
   \<and> latestMemeCoinSnapshot [] (tc_address ex_tokenConfig) ''testnet'' = None
   \<and> getNewTransactions (fst (fetchLatestTransactions (ex_page [])))
        (latestMemeCoinSnapshot [] (tc_address ex_tokenConfig) ''testnet'') = []
   \<and> analyzeCoinFlows ex_tokenConfig ''testnet'' (ex_page []) 2000 [] = Inl CouldNotFetchTokenInfo
   \<and> snd (fetchLatestTransactions (ex_page [ex_tx1])) \<noteq> None
   \<and> fst (fetchLatestTransactions (ex_page [ex_tx1])) \<noteq> []
   \<and> isValidEthereumAddress (nc_address ex_nftConfig)
   \<and> latestNFTSnapshot [] (nc_address ex_nftConfig) ''testnet'' = None
   \<and> getNewNFTTransactions (fst (fetchLatestNFTTransactions (Body (Some []) None)))
        (latestNFTSnapshot [] (nc_address ex_nftConfig) ''testnet'') = []
   \<and> analyzeNFTMovements ex_nftConfig ''testnet'' (Body (Some []) None) 2000 []
       = Inl CouldNotFetchTokenInfo
   \<and> snd (fetchLatestNFTTransactions (Body (Some [ex_ntx1]) None)) \<noteq> None
   \<and> fst (fetchLatestNFTTransactions (Body (Some [ex_ntx1]) None)) \<noteq> []"
proof -
  have h1: "isValidNetwork ''testnet'' \<and> isValidEthereumAddress (tc_address ex_tokenConfig)
      \<and> latestMemeCoinSnapshot [] (tc_address ex_tokenConfig) ''testnet'' = None
      \<and> getNewTransactions (fst (fetchLatestTransactions (ex_page [])))
            (latestMemeCoinSnapshot [] (tc_address ex_tokenConfig) ''testnet'') = []"
    by code_simp
  have h2: "snd (fetchLatestTransactions (ex_page [ex_tx1])) \<noteq> None"
    by code_simp
  have h3: "isValidNetwork ''testnet'' \<and> isValidEthereumAddress (nc_address ex_nftConfig)
        \<and> latestNFTSnapshot [] (nc_address ex_nftConfig) ''testnet'' = None
        \<and> getNewNFTTransactions (fst (fetchLatestNFTTransactions (Body (Some []) None)))
              (latestNFTSnapshot [] (nc_address ex_nftConfig) ''testnet'') = []"
    by code_simp
  have h4: "snd (fetchLatestNFTTransactions (Body (Some [ex_ntx1]) None)) \<noteq> None"
    by code_simp
  note c = C7_no_prior_no_items_fails
             [where network = "''testnet''" and config = ex_tokenConfig and store = "[]"
                and upstream = "ex_page []" and now = 2000 and upstreamB = "ex_page [ex_tx1]"
                and nnetwork = "''testnet''" and nconfig = ex_nftConfig and nstore = "[]"
                and nupstream = "Body (Some []) None" and nnow = 2000
                and nupstreamB = "Body (Some [ex_ntx1]) None"]
  show ?thesis
    using h1 h2 h3 h4 c by blast
qed

subsection \<open>Claim C8\<close>




subsection \<open>Claim C9\<close>




subsection \<open>Claim C10\<close>

text \<open>
  Claim C10. A submission of a retry job enrols an immediate item and a repeating item whose
  delay and period are \<open>intervalMinutes * 60000\<close> ms. After every successful cycle of a retry
  job (the task returned; the broker accepts the call) the handler appends one more item for
  the same job, not repeating, with delay \<open>intervalMinutes * 60000\<close> ms, and leaves the items
  already in the queue, the repeating one among them, in place. When the task throws, the
  handler enqueues nothing.
\<close>

theorem C10_worker_reenqueues_after_success:
  "(rq_action req = Some action \<and> action \<noteq> [] \<and> rq_payload req = Some pl
      \<and> (rq_network req = None \<or> (\<exists>n. rq_network req = Some n \<and> networkEnum n))
      \<and> rq_type req = Some ''retry'' \<and> rq_intervalMinutes req = Some m \<and> m \<noteq> 0
      \<and> w_brokerBudget w0 = None \<longrightarrow>
      (\<exists>dd. w_queue (snd (jobRoutes_post req now0 w0)) =
               w_queue w0 @
                 [\<lparr> qe_data = dd, qe_delay = None, qe_repeatEvery = None \<rparr>,
                  \<lparr> qe_data = dd, qe_delay = Some (Num (m * 60000)),
                    qe_repeatEvery = Some (Num (m * 60000)) \<rparr>]
             \<and> jd_jobId dd = fresh_id (w_jobs w0) \<and> jd_type dd = ''retry''
             \<and> jd_intervalMinutes dd = Some m))
   \<and> (jd_type d = ''retry'' \<and> jd_intervalMinutes d = Some k
        \<and> runTask (jd_action d) (jd_payload d) (jd_network d) up now w = Inr w2
        \<and> w_brokerBudget w \<noteq> Some 0 \<longrightarrow>
        w_queue (jobWorker d up now w) =
          w_queue w @
            [\<lparr> qe_data = d \<lparr> jd_network := None, jd_scheduledAt := None \<rparr>,
               qe_delay = Some (Num (k * 60000)), qe_repeatEvery = None \<rparr>])
   \<and> (jd_type d = ''retry''
        \<and> runTask (jd_action d) (jd_payload d) (jd_network d) up now w = Inl err \<longrightarrow>
        w_queue (jobWorker d up now w) = w_queue w)"
proof (intro conjI impI)
  assume h: "rq_action req = Some action \<and> action \<noteq> [] \<and> rq_payload req = Some pl
      \<and> (rq_network req = None \<or> (\<exists>n. rq_network req = Some n \<and> networkEnum n))
      \<and> rq_type req = Some ''retry'' \<and> rq_intervalMinutes req = Some m \<and> m \<noteq> 0
      \<and> w_brokerBudget w0 = None"
  have "\<exists>dd. w_queue (snd (jobRoutes_post req now0 w0)) =
               w_queue w0 @
                 [\<lparr> qe_data = dd, qe_delay = None, qe_repeatEvery = None \<rparr>,
                  \<lparr> qe_data = dd, qe_delay = Some (Num (m * 60 * 1000)),
                    qe_repeatEvery = Some (Num (m * 60 * 1000)) \<rparr>]
              \<and> jd_jobId dd = fresh_id (w_jobs w0) \<and> jd_type dd = ''retry''
              \<and> jd_intervalMinutes dd = Some m"
    using h by (intro jobRoutes_post_retry_queue[where action = action and pl = pl]) blast+
  then show "\<exists>dd. w_queue (snd (jobRoutes_post req now0 w0)) =
               w_queue w0 @
                 [\<lparr> qe_data = dd, qe_delay = None, qe_repeatEvery = None \<rparr>,
                  \<lparr> qe_data = dd, qe_delay = Some (Num (m * 60000)),
                    qe_repeatEvery = Some (Num (m * 60000)) \<rparr>]
             \<and> jd_jobId dd = fresh_id (w_jobs w0) \<and> jd_type dd = ''retry''
             \<and> jd_intervalMinutes dd = Some m"
    by (simp add: mult.commute)
next
  assume h: "jd_type d = ''retry'' \<and> jd_intervalMinutes d = Some k
        \<and> runTask (jd_action d) (jd_payload d) (jd_network d) up now w = Inr w2
        \<and> w_brokerBudget w \<noteq> Some 0"
  then have r: "jd_type d = ''retry''" by simp
  show "w_queue (jobWorker d up now w) =
          w_queue w @
            [\<lparr> qe_data = d \<lparr> jd_network := None, jd_scheduledAt := None \<rparr>,
               qe_delay = Some (Num (k * 60000)), qe_repeatEvery = None \<rparr>]"
    using h by (simp add: jobWorker_retry_queue[OF r] times_60_1000_def)
next
  assume h: "jd_type d = ''retry''
        \<and> runTask (jd_action d) (jd_payload d) (jd_network d) up now w = Inl err"
  then have r: "jd_type d = ''retry''" by simp
  show "w_queue (jobWorker d up now w) = w_queue w"
    using h by (simp add: jobWorker_retry_queue[OF r])
qed

theorem C10_worker_reenqueues_after_success_witness:
  "rq_action (ex_request ''analyze_coin_flows'' ''retry'') = Some ''analyze_coin_flows''
   \<and> rq_payload (ex_request ''analyze_coin_flows'' ''retry'') = Some ex_payload
   \<and> rq_network (ex_request ''analyze_coin_flows'' ''retry'') = None
   \<and> rq_type (ex_request ''analyze_coin_flows'' ''retry'') = Some ''retry''
   \<and> rq_intervalMinutes (ex_request ''analyze_coin_flows'' ''retry'') = Some 15
   \<and> w_brokerBudget (ex_world None) = None
   \<and> (\<exists>dd. w_queue (snd (jobRoutes_post (ex_request ''analyze_coin_flows'' ''retry'') 0
                            (ex_world None))) =
               w_queue (ex_world None) @
                 [\<lparr> qe_data = dd, qe_delay = None, qe_repeatEvery = None \<rparr>,
                  \<lparr> qe_data = dd, qe_delay = Some (Num (15 * 60000)),
                    qe_repeatEvery = Some (Num (15 * 60000)) \<rparr>]
             \<and> jd_jobId dd = fresh_id (w_jobs (ex_world None)) \<and> jd_type dd = ''retry''
             \<and> jd_intervalMinutes dd = Some 15)
   \<and> jd_type ex_retryData = ''retry'' \<and> jd_intervalMinutes ex_retryData = Some 15
   \<and> runTask (jd_action ex_retryData) (jd_payload ex_retryData) (jd_network ex_retryData)
         (ex_upstream (ex_page [ex_tx1])) 2000 ex_submitted
       = Inr (ex_submitted \<lparr> w_tokens := [ex_tokenSnapshot1] \<rparr>)
   \<and> w_brokerBudget ex_submitted \<noteq> Some 0
   \<and> w_queue (jobWorker ex_retryData (ex_upstream (ex_page [ex_tx1])) 2000 ex_submitted)
       = [ex_immediateEntry, ex_repeatEntry, ex_delayedEntry]
   \<and> runTask (jd_action ex_retryData) (jd_payload ex_retryData) (jd_network ex_retryData)
         (ex_upstream (\<lambda>e. RequestFailed)) 2000 ex_submitted
       = Inl CouldNotFetchTokenInfo
   \<and> w_queue (jobWorker ex_retryData (ex_upstream (\<lambda>e. RequestFailed)) 2000 ex_submitted)
       = [ex_immediateEntry, ex_repeatEntry]"
proof -
  have h0: "rq_action (ex_request ''analyze_coin_flows'' ''retry'') = Some ''analyze_coin_flows''
      \<and> rq_payload (ex_request ''analyze_coin_flows'' ''retry'') = Some ex_payload
      \<and> rq_network (ex_request ''analyze_coin_flows'' ''retry'') = None
      \<and> rq_type (ex_request ''analyze_coin_flows'' ''retry'') = Some ''retry''
      \<and> rq_intervalMinutes (ex_request ''analyze_coin_flows'' ''retry'') = Some 15
      \<and> w_brokerBudget (ex_world None) = None"
    by (simp add: ex_request_def ex_world_def)
  then have h: "rq_action (ex_request ''analyze_coin_flows'' ''retry'') = Some ''analyze_coin_flows''
      \<and> ''analyze_coin_flows'' \<noteq> []
      \<and> rq_payload (ex_request ''analyze_coin_flows'' ''retry'') = Some ex_payload
      \<and> (rq_network (ex_request ''analyze_coin_flows'' ''retry'') = None
          \<or> (\<exists>n. rq_network (ex_request ''analyze_coin_flows'' ''retry'') = Some n \<and> networkEnum n))
      \<and> rq_type (ex_request ''analyze_coin_flows'' ''retry'') = Some ''retry''
      \<and> rq_intervalMinutes (ex_request ''analyze_coin_flows'' ''retry'') = Some 15
      \<and> (15::int) \<noteq> 0
      \<and> w_brokerBudget (ex_world None) = None"
    by simp
  have g: "jd_type ex_retryData = ''retry'' \<and> jd_intervalMinutes ex_retryData = Some 15
           \<and> w_brokerBudget ex_submitted \<noteq> Some 0"
    by (simp add: ex_retryData_def ex_submitted_def)
  have q: "w_queue ex_submitted = [ex_immediateEntry, ex_repeatEntry]"
    by (simp add: ex_submitted_def)
  note c1 = C10_worker_reenqueues_after_success
              [where req = "ex_request ''analyze_coin_flows'' ''retry''"
                 and action = "''analyze_coin_flows''" and pl = ex_payload and m = 15
                 and ?w0.0 = "ex_world None" and ?now0.0 = 0
                 and d = ex_retryData and k = 15 and up = "ex_upstream (ex_page [ex_tx1])"
                 and now = 2000 and w = ex_submitted
                 and ?w2.0 = "ex_submitted \<lparr> w_tokens := [ex_tokenSnapshot1] \<rparr>"]
  note c2 = C10_worker_reenqueues_after_success
              [where d = ex_retryData and up = "ex_upstream (\<lambda>e. RequestFailed)"
                 and now = 2000 and w = ex_submitted and err = CouldNotFetchTokenInfo]
  note p1 = c1[THEN conjunct1, THEN mp, OF h]
  have p2: "w_queue (jobWorker ex_retryData (ex_upstream (ex_page [ex_tx1])) 2000 ex_submitted)
              = [ex_immediateEntry, ex_repeatEntry, ex_delayedEntry]"
    using c1[THEN conjunct2, THEN conjunct1] g ex_worker_task_ok
    by (simp add: q ex_delayedEntry_def)
  have p3: "w_queue (jobWorker ex_retryData (ex_upstream (\<lambda>e. RequestFailed)) 2000 ex_submitted)
              = [ex_immediateEntry, ex_repeatEntry]"
    using c2[THEN conjunct2, THEN conjunct2] g ex_worker_task_failed
    by (simp add: q)
  show ?thesis
    using h0 g p1 p2 p3 ex_worker_task_ok ex_worker_task_failed
    by (intro conjI) (blast | assumption)+
qed

end
